theory Spec2Isabelle
  imports Complex_Main "HOL-Library.Sublist"
begin

section \<open>Study Buddy: the heuristic communication-skills analyser\<close>

text \<open>
  A shallow embedding of \<^verbatim>\<open>backend/services/transcription_service.py\<close> (class
  \<^verbatim>\<open>TranscriptionService\<close>) and of the legacy confidence calculator in
  \<^verbatim>\<open>backend/services/transcription_service_broken.py\<close>.

  Conventions of the embedding.
  \<^item> A Python \<^verbatim>\<open>str\<close> is a \<open>string\<close>: a list of code points, here the code points
    0 to 255 (one \<open>char\<close> each), so \<open>length\<close> is Python's \<^verbatim>\<open>len\<close>.
  \<^item> A Python \<^verbatim>\<open>int\<close> is an \<open>int\<close>. A Python \<^verbatim>\<open>float\<close> is an IEEE 754 double, given by
    its exact value, a \<open>rat\<close>: every arithmetic operation on floats, the true division of
    two integers included, rounds its exact result to the nearest double, ties to even
    (subsection Numbers).
  \<^item> The process-wide generator of \<^verbatim>\<open>random\<close> is an explicit source of raw draws that
    every function using it takes and returns.
  \<^item> A leading underscore of a source name is dropped (\<^verbatim>\<open>_add_natural_variation\<close> is
    \<open>add_natural_variation\<close>).
\<close>

subsection \<open>Strings\<close>

text \<open>\<^verbatim>\<open>str.isspace\<close> on one code point below 256, as \<^verbatim>\<open>split()\<close> and \<^verbatim>\<open>strip()\<close> use it.\<close>

definition is_space :: "char \<Rightarrow> bool" where
  "is_space c =
     (let n = (of_char c :: nat)
      in (9 \<le> n \<and> n \<le> 13) \<or> (28 \<le> n \<and> n \<le> 32) \<or> n = 133 \<or> n = 160)"

text \<open>\<^verbatim>\<open>str.lower\<close> on one code point below 256.\<close>

definition lower_char :: "char \<Rightarrow> char" where
  "lower_char c =
     (let n = (of_char c :: nat)
      in if (65 \<le> n \<and> n \<le> 90) \<or> (192 \<le> n \<and> n \<le> 222 \<and> n \<noteq> 215)
         then char_of (n + 32) else c)"

definition lower :: "string \<Rightarrow> string" where
  "lower s = map lower_char s"

text \<open>\<^verbatim>\<open>s.strip()\<close> and \<^verbatim>\<open>s.strip(chars)\<close>: both ends are stripped.\<close>

definition strip_with :: "(char \<Rightarrow> bool) \<Rightarrow> string \<Rightarrow> string" where
  "strip_with p s = rev (dropWhile p (rev (dropWhile p s)))"

definition strip :: "string \<Rightarrow> string" where
  "strip s = strip_with is_space s"

definition strip_chars :: "string \<Rightarrow> string \<Rightarrow> string" where
  "strip_chars chars s = strip_with (\<lambda>c. c \<in> set chars) s"

text \<open>\<^verbatim>\<open>s.split()\<close>: the maximal runs of non-whitespace code points.\<close>

fun split :: "string \<Rightarrow> string list" where
  "split [] = []"
| "split (c # cs) =
     (if is_space c then split cs
      else if cs \<noteq> [] \<and> \<not> is_space (hd cs)
           then (case split cs of w # ws \<Rightarrow> (c # w) # ws | [] \<Rightarrow> [[c]])
           else [c] # split cs)"

text \<open>\<^verbatim>\<open>re.split(r'[.!?]+', s)\<close>: the pieces between maximal runs of terminators,
  empty pieces at both ends included.\<close>

definition is_terminator :: "char \<Rightarrow> bool" where
  "is_terminator c = (c = CHR ''.'' \<or> c = CHR ''!'' \<or> c = CHR ''?'')"

fun re_split :: "string \<Rightarrow> string list" where
  "re_split [] = [[]]"
| "re_split (c # cs) =
     (if is_terminator c
      then (if cs \<noteq> [] \<and> is_terminator (hd cs) then re_split cs else [] # re_split cs)
      else (case re_split cs of w # ws \<Rightarrow> (c # w) # ws | [] \<Rightarrow> [[c]]))"

text \<open>\<^verbatim>\<open>sub in s\<close> on strings.\<close>

definition contains :: "string \<Rightarrow> string \<Rightarrow> bool" where
  "contains s sub = sublist sub s"

text \<open>\<^verbatim>\<open>s.count(sub)\<close>: occurrences found from left to right, the search resuming
  after the end of each occurrence. The second argument of \<open>count_from\<close> is the number of
  code points still covered by the last occurrence.\<close>

fun count_from :: "string \<Rightarrow> nat \<Rightarrow> string \<Rightarrow> nat" where
  "count_from sub skip [] = 0"
| "count_from sub skip (c # cs) =
     (if 0 < skip then count_from sub (skip - 1) cs
      else if prefix sub (c # cs) then 1 + count_from sub (length sub - 1) cs
      else count_from sub 0 cs)"

definition count :: "string \<Rightarrow> string \<Rightarrow> nat" where
  "count s sub = (if sub = [] then length s + 1 else count_from sub 0 s)"

text \<open>\<^verbatim>\<open>str(n)\<close> for an integer, as the f-strings of the feedback use it.\<close>

definition digit_char :: "nat \<Rightarrow> char" where
  "digit_char d = char_of (48 + d)"

function str_of_nat :: "nat \<Rightarrow> string" where
  "str_of_nat n = (if n < 10 then [digit_char n] else str_of_nat (n div 10) @ [digit_char (n mod 10)])"
  by pat_completeness auto
termination
  by (relation "measure id") auto

declare str_of_nat.simps [simp del]

definition str_of_int :: "int \<Rightarrow> string" where
  "str_of_int i = (if i < 0 then CHR ''-'' # str_of_nat (nat (- i)) else str_of_nat (nat i))"

text \<open>\<^verbatim>\<open>sep.join(parts)\<close>.\<close>

fun join :: "string \<Rightarrow> string list \<Rightarrow> string" where
  "join sep [] = []"
| "join sep [p] = p"
| "join sep (p # q # ps) = p @ sep @ join sep (q # ps)"

subsection \<open>The random source\<close>

text \<open>
  The generator is the sequence of its future raw draws. \<^verbatim>\<open>random.randint(a, b)\<close>
  consumes one draw and maps it into \<open>a..b\<close>; every call site has \<open>a \<le> b\<close> (literal
  bounds, or \<open>- v\<close> and \<open>v\<close> with \<open>5 \<le> v\<close>), so the \<^verbatim>\<open>ValueError\<close> of an empty range
  does not arise.
\<close>

type_synonym rng = "nat \<Rightarrow> nat"

definition randint :: "int \<Rightarrow> int \<Rightarrow> rng \<Rightarrow> int \<times> rng" where
  "randint a b g = (a + int (g 0 mod nat (b - a + 1)), \<lambda>i. g (Suc i))"

text \<open>The source after \<open>n\<close> draws.\<close>

definition advance :: "nat \<Rightarrow> rng \<Rightarrow> rng" where
  "advance n g = (\<lambda>i. g (i + n))"

subsection \<open>Results\<close>

text \<open>The \<^verbatim>\<open>detailed_analysis\<close> dictionary.\<close>

record detailed_analysis =
  da_word_count :: int
  da_sentence_count :: int
  da_avg_words_per_sentence :: rat
  da_vocabulary_diversity :: rat
  da_speech_quality :: rat
  da_filler_words :: int
  da_complexity_score :: rat
  da_transcription_length :: int

text \<open>
  The suggestions text. The blocks of \<^verbatim>\<open>_generate_enhanced_suggestions\<close> carry emoji and
  bullet glyphs; each block (its heading and its bullets, in the source's order) is one
  constructor, and the text is the blocks joined by newlines. The fixed sentences of the
  other paths are \<open>Fixed\<close>.
\<close>

datatype suggestion =
    ClarityImprovement | ConfidenceBuilding | ArticulationEnhancement
  | ReduceFillerWords | SentenceComplexity | ImproveSpeechFlow
  | AdvancedDevelopment | DailyPractice | Fixed string

text \<open>The dictionary that \<^verbatim>\<open>_analyze_communication_skills\<close> returns.\<close>

record analysis_results =
  ar_clarity :: int
  ar_confidence :: int
  ar_articulation :: int
  ar_feedback :: string
  ar_suggestions :: "suggestion list"
  ar_detailed_analysis :: detailed_analysis

subsection \<open>Variation Injector\<close>

definition add_natural_variation :: "int \<Rightarrow> int \<Rightarrow> rng \<Rightarrow> int \<times> rng" where
  "add_natural_variation base_score word_count g =
     (let variation_range = min 15 (max 5 (word_count div 10));
          (variation, g') = randint (- variation_range) variation_range g
      in (min 100 (max 40 (base_score + variation)), g'))"

subsection \<open>Fallback Generator\<close>

definition generate_random_evaluation :: "string \<Rightarrow> rng \<Rightarrow> analysis_results \<times> rng" where
  "generate_random_evaluation reason g =
     (let (b1, g1) = randint 65 85 g;
          (b2, g2) = randint 65 85 g1;
          (b3, g3) = randint 65 85 g2;
          (j1, g4) = randint (- 10) 10 g3;
          (j2, g5) = randint (- 10) 10 g4;
          (j3, g6) = randint (- 10) 10 g5;
          clarity = min 100 (max 40 (b1 + j1));
          confidence = min 100 (max 40 (b2 + j2));
          articulation = min 100 (max 40 (b3 + j3))
      in (\<lparr> ar_clarity = clarity,
             ar_confidence = confidence,
             ar_articulation = articulation,
             ar_feedback = reason @ ''. Your speech shows '' @ str_of_int clarity
               @ ''% clarity, '' @ str_of_int confidence @ ''% confidence, and ''
               @ str_of_int articulation @ ''% articulation.'',
             ar_suggestions = [Fixed ''Try speaking more clearly and with better pronunciation. Practice regularly to improve your communication skills.''],
             ar_detailed_analysis =
               \<lparr> da_word_count = 0, da_sentence_count = 0, da_avg_words_per_sentence = 0,
                 da_vocabulary_diversity = 0, da_speech_quality = 1 / 2, da_filler_words = 0,
                 da_complexity_score = 0, da_transcription_length = 0 \<rparr> \<rparr>, g6))"

subsection \<open>Numbers\<close>

text \<open>\<^verbatim>\<open>int(x)\<close> on a float truncates towards zero.\<close>

definition py_int :: "rat \<Rightarrow> int" where
  "py_int x = (if 0 \<le> x then \<lfloor>x\<rfloor> else \<lceil>x\<rceil>)"

text \<open>Rounding to an integer, a tie going to the even neighbour.\<close>

definition round_half_even :: "rat \<Rightarrow> int" where
  "round_half_even x =
     (let f = \<lfloor>x\<rfloor>; d = x - of_int f
      in if d < 1 / 2 then f else if 1 / 2 < d then f + 1 else if even f then f else f + 1)"

text \<open>
  Doubles. A double has a significand of 53 bits: the doubles next to \<open>x\<close> are the
  multiples of \<open>ulp x\<close>, the power of two \<open>s\<close> with \<open>2 ^ 52 * s \<le> \<bar>x\<bar> < 2 ^ 53 * s\<close>,
  which is at least \<open>1 / 2 ^ 1074\<close> (below \<open>1 / 2 ^ 1022\<close> the doubles are subnormal) and at
  most \<open>2 ^ 971\<close>. \<open>double x\<close> is the double nearest to \<open>x\<close>, a tie going to the even
  significand, which is what every float operation of CPython returns for the exact
  result \<open>x\<close>. Overflow is not modelled: no float of the analyser exceeds the number of
  characters of the transcript.
\<close>

fun ulp_down :: "nat \<Rightarrow> rat \<Rightarrow> rat \<Rightarrow> rat" where
  "ulp_down 0 x s = s"
| "ulp_down (Suc n) x s = (if x < 2 ^ 52 * s then ulp_down n x (s / 2) else s)"

fun ulp_up :: "nat \<Rightarrow> rat \<Rightarrow> rat \<Rightarrow> rat" where
  "ulp_up 0 x s = s"
| "ulp_up (Suc n) x s = (if 2 ^ 53 * s \<le> x then ulp_up n x (2 * s) else s)"

definition ulp :: "rat \<Rightarrow> rat" where
  "ulp x = (if \<bar>x\<bar> < 2 ^ 52 then ulp_down 1074 \<bar>x\<bar> 1 else ulp_up 971 \<bar>x\<bar> 1)"

definition double :: "rat \<Rightarrow> rat" where
  "double x = of_int (round_half_even (x / ulp x)) * ulp x"

text \<open>\<^verbatim>\<open>a / b\<close> on two integers (true division; no call site has \<open>b = 0\<close>), and
  \<^verbatim>\<open>x + y\<close>, \<^verbatim>\<open>x - y\<close>, \<^verbatim>\<open>x * y\<close>, \<^verbatim>\<open>x / y\<close> with a float operand (an integer operand is
  converted exactly).\<close>

definition truediv :: "int \<Rightarrow> int \<Rightarrow> rat" where
  "truediv a b = double (of_int a / of_int b)"

definition fadd :: "rat \<Rightarrow> rat \<Rightarrow> rat" where
  "fadd x y = double (x + y)"

definition fsub :: "rat \<Rightarrow> rat \<Rightarrow> rat" where
  "fsub x y = double (x - y)"

definition fmul :: "rat \<Rightarrow> rat \<Rightarrow> rat" where
  "fmul x y = double (x * y)"

definition fdiv :: "rat \<Rightarrow> rat \<Rightarrow> rat" where
  "fdiv x y = double (x / y)"

text \<open>\<^verbatim>\<open>sum(xs)\<close> on a list of floats: the items are added from the left, starting from
  0, each partial sum rounded. (This is the builtin of CPython up to 3.11; from 3.12 on it
  also carries a compensation term for the rounding errors of the partial sums.)\<close>

definition fsum :: "rat list \<Rightarrow> rat" where
  "fsum xs = foldl fadd 0 xs"

text \<open>\<^verbatim>\<open>round(x, n)\<close> on a float: the exact value of \<open>x\<close> is rounded to \<open>n\<close> decimals, a
  tie going to the even neighbour, and the decimal result is converted to the nearest
  double.\<close>

definition py_round :: "rat \<Rightarrow> nat \<Rightarrow> rat" where
  "py_round x n = double (of_int (round_half_even (x * 10 ^ n)) / 10 ^ n)"

text \<open>The specification's \<open>clamp(x, lo, hi)\<close>.\<close>

definition clamp :: "int \<Rightarrow> int \<Rightarrow> int \<Rightarrow> int" where
  "clamp x lo hi = (if x < lo then lo else if hi < x then hi else x)"

subsection \<open>Lexical Feature Extractor\<close>

text \<open>The local values of \<^verbatim>\<open>_analyze_communication_skills\<close> (lines 659 to 666).\<close>

definition sentence_count_of :: "string \<Rightarrow> int" where
  "sentence_count_of transcription = int (length (re_split transcription)) - 1"

definition avg_words_per_sentence_of :: "int \<Rightarrow> int \<Rightarrow> rat" where
  "avg_words_per_sentence_of word_count sentence_count =
     truediv word_count (max sentence_count 1)"

definition unique_words :: "string list \<Rightarrow> string list" where
  "unique_words words = remdups (map (\<lambda>word. strip_chars ''.,!?;:\"'' (lower word)) words)"

definition vocabulary_diversity_of :: "string list \<Rightarrow> rat" where
  "vocabulary_diversity_of words =
     (if words \<noteq> []
      then truediv (int (length (unique_words words))) (int (length words)) else 0)"

text \<open>The dictionary that \<^verbatim>\<open>_analyze_speech_patterns\<close> returns.\<close>

record speech_analysis =
  filler_word_count :: int
  complexity_score :: rat
  flow_score :: rat
  quality_rating :: rat
  has_questions :: bool
  has_exclamations :: bool
  formal_language_count :: int

definition filler_words :: "string list" where
  "filler_words = [''um'', ''uh'', ''like'', ''you know'', ''actually'', ''basically'',
     ''literally'', ''sort of'', ''kind of'']"

definition formal_words :: "string list" where
  "formal_words = [''therefore'', ''however'', ''moreover'', ''furthermore'', ''consequently'']"

definition sentences_of :: "string \<Rightarrow> string list" where
  "sentences_of transcription = filter (\<lambda>s. s \<noteq> []) (map strip (re_split transcription))"

definition analyze_speech_patterns :: "string \<Rightarrow> string list \<Rightarrow> int \<Rightarrow> speech_analysis" where
  "analyze_speech_patterns transcription words word_count =
     (let filler_word_count =
            sum_list (map (\<lambda>filler. int (count (lower transcription) filler)) filler_words);
          sentences = sentences_of transcription;
          complex_sentences = length (filter (\<lambda>s. 15 < length (split s)) sentences);
          complexity_score =
            (if sentences \<noteq> []
             then truediv (int complex_sentences) (int (length sentences)) else 0);
          short_sentences = length (filter (\<lambda>s. length (split s) < 5) sentences);
          flow_score =
            (if sentences \<noteq> []
             then fsub 1 (truediv (int short_sentences) (int (length sentences))) else 0);
          quality_factors =
            [fsub 1 (min (truediv filler_word_count 10) (1 / 2)),
             min complexity_score 1,
             flow_score,
             min (truediv word_count 50) 1];
          quality_rating = fdiv (fsum quality_factors) (of_nat (length quality_factors))
      in \<lparr> filler_word_count = filler_word_count,
           complexity_score = complexity_score,
           flow_score = flow_score,
           quality_rating = quality_rating,
           has_questions = (CHR ''?'' \<in> set transcription),
           has_exclamations = (CHR ''!'' \<in> set transcription),
           formal_language_count =
             int (length (filter (\<lambda>word. lower word \<in> set formal_words) words)) \<rparr>)"

subsection \<open>Score Calculators\<close>

text \<open>\<^verbatim>\<open>sum(k for x in xs if x in transcription.lower())\<close>.\<close>

definition indicator_sum :: "int \<Rightarrow> string list \<Rightarrow> string \<Rightarrow> int" where
  "indicator_sum k xs transcription =
     sum_list (map (\<lambda>_. k) (filter (\<lambda>x. contains (lower transcription) x) xs))"

definition calculate_enhanced_clarity_score ::
  "string \<Rightarrow> int \<Rightarrow> rat \<Rightarrow> speech_analysis \<Rightarrow> int" where
  "calculate_enhanced_clarity_score transcription word_count avg_words_per_sentence sa =
     (let base_score = 60;
          base_score =
            (if 8 \<le> avg_words_per_sentence \<and> avg_words_per_sentence \<le> 18 then base_score + 12
             else if 5 \<le> avg_words_per_sentence \<and> avg_words_per_sentence \<le> 25 then base_score + 6
             else base_score);
          base_score =
            (if 25 \<le> word_count then base_score + 10
             else if 15 \<le> word_count then base_score + 5
             else base_score);
          clarity_bonus =
            indicator_sum 4 [''clear'', ''understand'', ''explain'', ''simple'', ''direct'',
              ''obvious'', ''apparent''] transcription;
          filler_penalty = min 15 (filler_word_count sa * 2);
          quality_bonus = py_int (fmul (quality_rating sa) 10)
      in min 100 (base_score + clarity_bonus - filler_penalty + quality_bonus))"

definition calculate_enhanced_confidence_score :: "string \<Rightarrow> speech_analysis \<Rightarrow> int" where
  "calculate_enhanced_confidence_score transcription sa =
     (let base_score = 55;
          strong_bonus =
            indicator_sum 6 [''believe'', ''confident'', ''excited'', ''passionate'', ''sure'',
              ''certain'', ''definitely'', ''absolutely''] transcription;
          moderate_bonus =
            indicator_sum 3 [''think'', ''feel'', ''hope'', ''suggest'', ''recommend'',
              ''consider''] transcription;
          leadership_bonus =
            indicator_sum 5 [''lead'', ''guide'', ''direct'', ''manage'', ''organize'', ''plan'',
              ''decide''] transcription;
          uncertainty_penalty =
            indicator_sum 3 [''maybe'', ''perhaps'', ''possibly'', ''might'', ''could'',
              ''should'', ''would''] transcription;
          filler_penalty = min 20 (filler_word_count sa * 3);
          formal_bonus = min 10 (formal_language_count sa * 3);
          total_score = base_score + strong_bonus + moderate_bonus + leadership_bonus
            - uncertainty_penalty - filler_penalty + formal_bonus
      in min 100 (max 30 total_score))"

definition calculate_enhanced_articulation_score ::
  "string \<Rightarrow> int \<Rightarrow> rat \<Rightarrow> speech_analysis \<Rightarrow> int" where
  "calculate_enhanced_articulation_score transcription word_count vocabulary_diversity sa =
     (let base_score = 65;
          base_score =
            (if 35 \<le> word_count then base_score + 12
             else if 25 \<le> word_count then base_score + 8
             else if 15 \<le> word_count then base_score + 4
             else base_score);
          base_score =
            (if double (8 / 10) < vocabulary_diversity then base_score + 15
             else if double (6 / 10) < vocabulary_diversity then base_score + 10
             else if double (4 / 10) < vocabulary_diversity then base_score + 5
             else base_score);
          articulation_bonus =
            indicator_sum 4 [''articulate'', ''express'', ''communicate'', ''convey'',
              ''describe'', ''explain'', ''elaborate'', ''detail''] transcription;
          complexity_bonus = py_int (fmul (complexity_score sa) 15);
          flow_bonus = py_int (fmul (flow_score sa) 10);
          base_score = (if flow_score sa < double (3 / 10) then base_score - 10 else base_score);
          engagement_bonus = 0;
          engagement_bonus = (if has_questions sa then engagement_bonus + 5 else engagement_bonus);
          engagement_bonus = (if has_exclamations sa then engagement_bonus + 3 else engagement_bonus);
          total_score = base_score + articulation_bonus + complexity_bonus + flow_bonus
            + engagement_bonus
      in min 100 (max 35 total_score))"

text \<open>The legacy calculator of \<^verbatim>\<open>transcription_service_broken.py\<close>, and the keyword
  count its caller (the legacy \<^verbatim>\<open>_analyze_communication_skills\<close>) passes to it.\<close>

definition calculate_confidence_score :: "string \<Rightarrow> int \<Rightarrow> int" where
  "calculate_confidence_score transcription keyword_count =
     (let base_score = 65;
          base_score = base_score + min 20 (keyword_count * 3);
          confidence_bonus =
            indicator_sum 5 [''believe'', ''confident'', ''excited'', ''passionate'', ''sure'',
              ''certain''] transcription;
          hesitation_penalty =
            indicator_sum 3 [''um'', ''uh'', ''like'', ''you know'', ''actually'',
              ''basically''] transcription
      in max 0 (min 100 (base_score + confidence_bonus - hesitation_penalty)))"

definition positive_keywords :: "string list" where
  "positive_keywords = [''effective'', ''clear'', ''good'', ''excellent'', ''confident'',
     ''passionate'', ''important'', ''essential'', ''success'', ''improve'', ''better'',
     ''understand'']"

definition legacy_keyword_count :: "string \<Rightarrow> int" where
  "legacy_keyword_count transcription =
     sum_list (map (\<lambda>_. 1)
       (filter (\<lambda>keyword. contains (lower transcription) (lower keyword)) positive_keywords))"

subsection \<open>Feedback and Suggestion Composer\<close>

definition overall_sentence :: "rat \<Rightarrow> string" where
  "overall_sentence overall_score =
     (if 85 \<le> overall_score then ''Excellent communication skills! Your speech demonstrates high proficiency across all areas.''
      else if 75 \<le> overall_score then ''Very good communication skills. You show strong abilities with room for refinement.''
      else if 65 \<le> overall_score then ''Good communication skills. You have a solid foundation to build upon.''
      else if 55 \<le> overall_score then ''Developing communication skills. Focus on the areas mentioned below for improvement.''
      else ''Communication skills need development. Practice the suggested areas to improve.'')"

definition clarity_sentence :: "int \<Rightarrow> string" where
  "clarity_sentence clarity_score =
     (if 80 \<le> clarity_score then ''Your speech is very clear and easy to understand. Words are well-pronounced and your message comes across effectively.''
      else if 60 \<le> clarity_score then ''Your speech is generally clear, though some words could be more distinct. Focus on enunciation for better clarity.''
      else ''Your speech clarity needs improvement. Try speaking more slowly and focusing on pronouncing each word clearly.'')"

definition confidence_sentence :: "int \<Rightarrow> string" where
  "confidence_sentence confidence_score =
     (if 80 \<le> confidence_score then ''You speak with strong confidence and assurance. Your tone is assertive and your message is delivered with conviction.''
      else if 60 \<le> confidence_score then ''You show moderate confidence in your speech. While you convey your message, adding more assertiveness would strengthen your delivery.''
      else ''Your confidence level could be improved. Try to speak with more conviction and use more definitive language.'')"

definition articulation_sentence :: "int \<Rightarrow> string" where
  "articulation_sentence articulation_score =
     (if 80 \<le> articulation_score then ''You articulate your thoughts exceptionally well. Your ideas are well-organized and expressed with precision.''
      else if 60 \<le> articulation_score then ''Your articulation is good, but could be more precise. Work on organizing your thoughts more coherently.''
      else ''Your articulation needs improvement. Focus on structuring your thoughts and expressing them more clearly.'')"

definition situational_sentences :: "speech_analysis \<Rightarrow> string list" where
  "situational_sentences sa =
     (if 3 < filler_word_count sa
      then [''You used '' @ str_of_int (filler_word_count sa) @ '' filler words, which can distract from your message.'']
      else [])
     @ (if double (7 / 10) < complexity_score sa
        then [''You demonstrate good sentence complexity, showing advanced communication skills.'']
        else if complexity_score sa < double (3 / 10)
        then [''Your sentences tend to be simple. Try using more complex sentence structures to express sophisticated ideas.'']
        else [])
     @ (if double (8 / 10) < flow_score sa
        then [''Excellent speech flow and rhythm. Your delivery is smooth and engaging.'']
        else if flow_score sa < 1 / 2
        then [''Your speech flow could be improved. Work on connecting ideas more smoothly.'']
        else [])"

text \<open>The list \<^verbatim>\<open>feedback_parts\<close> at the end of \<^verbatim>\<open>_generate_enhanced_feedback\<close>.\<close>

definition feedback_parts ::
  "int \<Rightarrow> int \<Rightarrow> int \<Rightarrow> string \<Rightarrow> speech_analysis \<Rightarrow> string list" where
  "feedback_parts clarity_score confidence_score articulation_score transcription sa =
     (let overall_score = truediv (clarity_score + confidence_score + articulation_score) 3
      in [overall_sentence overall_score,
          clarity_sentence clarity_score,
          confidence_sentence confidence_score,
          articulation_sentence articulation_score]
         @ situational_sentences sa)"

definition generate_enhanced_feedback ::
  "int \<Rightarrow> int \<Rightarrow> int \<Rightarrow> string \<Rightarrow> speech_analysis \<Rightarrow> string" where
  "generate_enhanced_feedback clarity_score confidence_score articulation_score transcription sa =
     join '' '' (feedback_parts clarity_score confidence_score articulation_score transcription sa)"

definition generate_enhanced_suggestions ::
  "int \<Rightarrow> int \<Rightarrow> int \<Rightarrow> speech_analysis \<Rightarrow> suggestion list" where
  "generate_enhanced_suggestions clarity_score confidence_score articulation_score sa =
     (if clarity_score < 70 then [ClarityImprovement] else [])
     @ (if confidence_score < 70 then [ConfidenceBuilding] else [])
     @ (if articulation_score < 70 then [ArticulationEnhancement] else [])
     @ (if 5 < filler_word_count sa then [ReduceFillerWords] else [])
     @ (if complexity_score sa < double (4 / 10) then [SentenceComplexity] else [])
     @ (if flow_score sa < double (6 / 10) then [ImproveSpeechFlow] else [])
     @ (if 80 \<le> clarity_score \<and> 80 \<le> confidence_score \<and> 80 \<le> articulation_score
        then [AdvancedDevelopment] else [])
     @ [DailyPractice]"

subsection \<open>The analyser\<close>

definition analyze_communication_skills :: "string \<Rightarrow> rng \<Rightarrow> analysis_results \<times> rng" where
  "analyze_communication_skills transcription g =
     (if transcription = [] \<or> length (strip transcription) < 10
      then generate_random_evaluation ''No speech detected or transcription too short'' g
      else
        let words = split transcription;
            word_count = int (length words);
            sentence_count = sentence_count_of transcription;
            avg_words_per_sentence = avg_words_per_sentence_of word_count sentence_count;
            vocabulary_diversity = vocabulary_diversity_of words;
            sa = analyze_speech_patterns transcription words word_count;
            clarity_score =
              calculate_enhanced_clarity_score transcription word_count avg_words_per_sentence sa;
            confidence_score = calculate_enhanced_confidence_score transcription sa;
            articulation_score =
              calculate_enhanced_articulation_score transcription word_count vocabulary_diversity sa;
            (clarity_score, g1) = add_natural_variation clarity_score word_count g;
            (confidence_score, g2) = add_natural_variation confidence_score word_count g1;
            (articulation_score, g3) = add_natural_variation articulation_score word_count g2
        in (\<lparr> ar_clarity = clarity_score,
               ar_confidence = confidence_score,
               ar_articulation = articulation_score,
               ar_feedback =
                 generate_enhanced_feedback clarity_score confidence_score articulation_score
                   transcription sa,
               ar_suggestions =
                 generate_enhanced_suggestions clarity_score confidence_score articulation_score sa,
               ar_detailed_analysis =
                 \<lparr> da_word_count = word_count,
                   da_sentence_count = sentence_count,
                   da_avg_words_per_sentence = py_round avg_words_per_sentence 1,
                   da_vocabulary_diversity = py_round vocabulary_diversity 2,
                   da_speech_quality = quality_rating sa,
                   da_filler_words = filler_word_count sa,
                   da_complexity_score = complexity_score sa,
                   da_transcription_length = int (length transcription) \<rparr> \<rparr>, g3))"

subsection \<open>The evaluate boundary\<close>

text \<open>
  An exception is a value. \<open>ValidationError\<close> is what the pydantic model
  \<^verbatim>\<open>TranscriptionEvaluationOutput\<close> raises when a score is outside its declared bounds
  (\<^verbatim>\<open>ge=0, le=100\<close>); \<open>Raised\<close> is any other exception, with its message.
\<close>

datatype error = ValidationError | Raised string

datatype analysis = Detailed detailed_analysis | ErrorText string | ErrorOf error

record evaluation_output =
  transcription :: string
  clarity :: int
  confidence :: int
  articulation :: int
  feedback :: string
  suggestions :: "suggestion list"
  analysis :: analysis

text \<open>The constructor call \<^verbatim>\<open>TranscriptionEvaluationOutput(...)\<close> with its field validation.\<close>

definition TranscriptionEvaluationOutput ::
  "string \<Rightarrow> int \<Rightarrow> int \<Rightarrow> int \<Rightarrow> string \<Rightarrow> suggestion list \<Rightarrow> analysis
     \<Rightarrow> error + evaluation_output" where
  "TranscriptionEvaluationOutput t c f a fb sg an =
     (if 0 \<le> c \<and> c \<le> 100 \<and> 0 \<le> f \<and> f \<le> 100 \<and> 0 \<le> a \<and> a \<le> 100
      then Inr \<lparr> transcription = t, clarity = c, confidence = f, articulation = a,
                 feedback = fb, suggestions = sg, analysis = an \<rparr>
      else Inl ValidationError)"

text \<open>
  \<^verbatim>\<open>evaluate_text_only\<close>, for any analyser in the place of
  \<^verbatim>\<open>self._analyze_communication_skills\<close>: the body of the \<^verbatim>\<open>try\<close> is \<open>evaluate_body\<close>,
  the \<^verbatim>\<open>except Exception\<close> clause is the \<open>Inl\<close> case of \<open>evaluate_text_only_with\<close>.
  The result is again a sum, since the handler itself calls the validating constructor.
\<close>

definition evaluate_body ::
  "(string \<Rightarrow> rng \<Rightarrow> error + analysis_results \<times> rng) \<Rightarrow> string \<Rightarrow> rng
     \<Rightarrow> error + evaluation_output" where
  "evaluate_body analyse input g =
     (let transcription = strip input
      in if transcription = []
         then TranscriptionEvaluationOutput ''No text provided for evaluation.'' 0 0 0
                ''Please provide some text to evaluate your communication skills.''
                [Fixed ''Try speaking for at least 3-5 seconds and then click stop recording.'']
                (ErrorText ''Empty transcription'')
         else (case analyse transcription g of
                 Inl e \<Rightarrow> Inl e
               | Inr (r, g') \<Rightarrow>
                   TranscriptionEvaluationOutput transcription (ar_clarity r) (ar_confidence r)
                     (ar_articulation r) (ar_feedback r) (ar_suggestions r)
                     (Detailed (ar_detailed_analysis r))))"

definition evaluate_text_only_with ::
  "(string \<Rightarrow> rng \<Rightarrow> error + analysis_results \<times> rng) \<Rightarrow> string \<Rightarrow> rng
     \<Rightarrow> error + evaluation_output" where
  "evaluate_text_only_with analyse input g =
     (case evaluate_body analyse input g of
        Inr out \<Rightarrow> Inr out
      | Inl e \<Rightarrow>
          TranscriptionEvaluationOutput ''Error evaluating text. Please try again.'' 50 50 50
            ''There was an error analyzing your text. Please try again.''
            [Fixed ''Try recording your speech again.'']
            (ErrorOf e))"

definition evaluate_text_only :: "string \<Rightarrow> rng \<Rightarrow> error + evaluation_output" where
  "evaluate_text_only input g =
     evaluate_text_only_with (\<lambda>t g. Inr (analyze_communication_skills t g)) input g"

subsection \<open>The specification's reading of vocabulary diversity\<close>

text \<open>
  The specification's words: lowercase each word, strip trailing punctuation, count the
  distinct forms, divide by the word count (0 if there is no word).
\<close>

definition rstrip_chars :: "string \<Rightarrow> string \<Rightarrow> string" where
  "rstrip_chars chars s = rev (dropWhile (\<lambda>c. c \<in> set chars) (rev s))"

definition vocabulary_diversity_spec :: "string list \<Rightarrow> rat" where
  "vocabulary_diversity_spec words =
     (if words \<noteq> []
      then truediv (int (length (remdups (map (\<lambda>word. rstrip_chars ''.,!?;:\"'' (lower word)) words))))
             (int (length words))
      else 0)"

section \<open>Properties\<close>

subsection \<open>Numbers\<close>

lemma round_half_even_bounds:
  assumes "of_int lo \<le> x" and "x \<le> of_int hi"
  shows "lo \<le> round_half_even x" and "round_half_even x \<le> hi"
proof -
  have f1: "lo \<le> \<lfloor>x\<rfloor>" using assms(1) by (simp add: le_floor_iff)
  have f2: "\<lfloor>x\<rfloor> \<le> hi" using assms(2) by (simp add: floor_le_iff)
  show "lo \<le> round_half_even x" using f1 by (simp add: round_half_even_def Let_def)
  show "round_half_even x \<le> hi"
  proof (cases "\<lfloor>x\<rfloor> = hi")
    case True
    then have "x - of_int \<lfloor>x\<rfloor> \<le> 0" using assms(2) by simp
    moreover have "0 \<le> x - of_int \<lfloor>x\<rfloor>" by simp
    ultimately have "x - of_int \<lfloor>x\<rfloor> = 0" by linarith
    then show ?thesis using True by (simp add: round_half_even_def Let_def)
  next
    case False
    then have "\<lfloor>x\<rfloor> + 1 \<le> hi" using f2 by simp
    then show ?thesis by (simp add: round_half_even_def Let_def)
  qed
qed

lemma round_half_even_frac:
  assumes "0 < b"
  shows "round_half_even (of_int a / of_int b) =
           (if 2 * (a mod b) < b then a div b
            else if b < 2 * (a mod b) then a div b + 1
            else if even (a div b) then a div b else a div b + 1)"
proof -
  have f: "\<lfloor>(of_int a :: rat) / of_int b\<rfloor> = a div b" by (rule floor_divide_of_int_eq)
  have "(of_int a :: rat) = of_int (a div b * b + a mod b)" by simp
  then have "(of_int a :: rat) = of_int (a div b) * of_int b + of_int (a mod b)"
    by (simp only: of_int_add of_int_mult)
  then have "(of_int a :: rat) / of_int b = of_int (a div b) + of_int (a mod b) / of_int b"
    using assms by (simp add: field_simps)
  then have d: "(of_int a :: rat) / of_int b - of_int (a div b) = of_int (a mod b) / of_int b"
    by simp
  have lt: "(of_int (a mod b) :: rat) / of_int b < 1 / 2 \<longleftrightarrow> 2 * (a mod b) < b"
  proof -
    have "(of_int (a mod b) :: rat) / of_int b < 1 / 2 \<longleftrightarrow> (of_int (2 * (a mod b)) :: rat) < of_int b"
      using assms by (simp add: field_simps)
    then show ?thesis by (simp only: of_int_less_iff)
  qed
  have gt: "1 / 2 < (of_int (a mod b) :: rat) / of_int b \<longleftrightarrow> b < 2 * (a mod b)"
  proof -
    have "1 / 2 < (of_int (a mod b) :: rat) / of_int b \<longleftrightarrow> (of_int b :: rat) < of_int (2 * (a mod b))"
      using assms by (simp add: field_simps)
    then show ?thesis by (simp only: of_int_less_iff)
  qed
  show ?thesis unfolding round_half_even_def Let_def f d lt gt ..
qed

lemma round_half_even_numeral:
  "round_half_even (numeral a / numeral b) =
           (if 2 * (numeral a mod numeral b) < (numeral b :: int) then numeral a div numeral b
            else if numeral b < 2 * (numeral a mod numeral b :: int) then numeral a div numeral b + 1
            else if even (numeral a div numeral b :: int) then numeral a div numeral b
            else numeral a div numeral b + 1)"
  using round_half_even_frac [of "numeral b" "numeral a"] by simp

lemma round_half_even_of_int: "round_half_even (of_int n) = n"
  by (simp add: round_half_even_def)

lemma round_half_even_int_numeral:
  "round_half_even (numeral n) = numeral n" "round_half_even 1 = 1" "round_half_even 0 = 0"
  using round_half_even_of_int [of "numeral n"] round_half_even_of_int [of 1]
    round_half_even_of_int [of 0]
  by simp_all

lemma ulp_down_pos: "0 < s \<Longrightarrow> 0 < ulp_down n x s"
  by (induction n x s rule: ulp_down.induct) simp_all

lemma ulp_up_pos: "0 < s \<Longrightarrow> 0 < ulp_up n x s"
  by (induction n x s rule: ulp_up.induct) simp_all

lemma ulp_pos: "0 < ulp x"
  by (simp add: ulp_def ulp_down_pos ulp_up_pos)

lemma ulp_up_stop: "x < 2 ^ 53 * s \<Longrightarrow> ulp_up n x s = s"
  by (cases n) simp_all

lemma half_power: "(1 / 2 ^ j) / 2 = 1 / (2::rat) ^ Suc j"
  by simp

lemma ulp_down_power: "\<exists>k. ulp_down n x (1 / 2 ^ j) = 1 / 2 ^ k"
proof (induction n arbitrary: j)
  case 0
  show ?case by auto
next
  case (Suc n)
  show ?case
  proof (cases "x < 2 ^ 52 * (1 / 2 ^ j)")
    case True
    then have "ulp_down (Suc n) x (1 / 2 ^ j) = ulp_down n x (1 / 2 ^ Suc j)"
      by (simp only: ulp_down.simps half_power if_True)
    then show ?thesis using Suc [of "Suc j"] by simp
  next
    case False
    then have "ulp_down (Suc n) x (1 / 2 ^ j) = 1 / 2 ^ j" by simp
    then show ?thesis by blast
  qed
qed

lemma scaled_nonneg:
  assumes "(2::rat) ^ 52 \<le> x * 2 ^ k"
  shows "0 \<le> x"
proof (rule ccontr)
  assume "\<not> 0 \<le> x"
  then have "x * 2 ^ k < 0" by (simp add: mult_less_0_iff)
  then show False using assms by simp
qed

lemma ulp_down_exact:
  assumes "2 ^ 52 \<le> x * 2 ^ k" and "x * 2 ^ k < 2 ^ 53" and "j \<le> k" and "k - j \<le> n"
  shows "ulp_down n x (1 / 2 ^ j) = 1 / 2 ^ k"
  using assms(3,4)
proof (induction n arbitrary: j)
  case 0
  then show ?case by simp
next
  case (Suc n)
  note x = scaled_nonneg [OF assms(1)]
  show ?case
  proof (cases "x < 2 ^ 52 * (1 / 2 ^ j)")
    case True
    then have "x * 2 ^ j < 2 ^ 52" by (simp add: field_simps)
    then have "j \<noteq> k" using assms(1) by auto
    then have "Suc j \<le> k" "k - Suc j \<le> n" using Suc.prems by simp_all
    then have "ulp_down n x (1 / 2 ^ Suc j) = 1 / 2 ^ k" by (rule Suc.IH)
    moreover have "ulp_down (Suc n) x (1 / 2 ^ j) = ulp_down n x (1 / 2 ^ Suc j)"
      using True by (simp only: ulp_down.simps half_power if_True)
    ultimately show ?thesis by simp
  next
    case False
    then have a: "2 ^ 52 \<le> x * 2 ^ j" by (simp add: field_simps)
    have "j = k"
    proof (rule ccontr)
      assume "j \<noteq> k"
      then have "Suc j \<le> k" using Suc.prems by simp
      then have "(2::rat) ^ Suc j \<le> 2 ^ k" by (intro power_increasing) simp_all
      then have "x * 2 ^ Suc j \<le> x * 2 ^ k" using x by (intro mult_left_mono)
      then have "2 ^ 53 \<le> x * 2 ^ k" using a by simp
      then show False using assms(2) by simp
    qed
    then show ?thesis using False by simp
  qed
qed

lemma double_eval:
  assumes "2 ^ 52 \<le> x * 2 ^ k" and "x * 2 ^ k < 2 ^ 53" and "k \<le> 1074"
  shows "double x = of_int (round_half_even (x * 2 ^ k)) / 2 ^ k"
proof -
  note x = scaled_nonneg [OF assms(1)]
  have "x * 1 \<le> x * 2 ^ k" using x by (intro mult_left_mono) simp_all
  then have lt: "x < 2 ^ 53" using assms(2) by simp
  have u: "ulp x = 1 / 2 ^ k"
  proof (cases "x < 2 ^ 52")
    case True
    have "ulp_down 1074 x (1 / 2 ^ 0) = 1 / 2 ^ k"
      by (rule ulp_down_exact [OF assms(1,2)]) (use assms(3) in simp_all)
    then show ?thesis using True x by (simp add: ulp_def)
  next
    case False
    then have g: "2 ^ 52 \<le> x" by simp
    have "k = 0"
    proof (rule ccontr)
      assume "k \<noteq> 0"
      then have "(2::rat) ^ 1 \<le> 2 ^ k" by (intro power_increasing) simp_all
      then have "x * 2 ^ 1 \<le> x * 2 ^ k" using x by (intro mult_left_mono)
      then show False using g assms(2) by simp
    qed
    moreover have "ulp_up 971 x 1 = 1" by (rule ulp_up_stop) (use lt in simp)
    ultimately show ?thesis using False x by (simp add: ulp_def)
  qed
  show ?thesis by (simp add: double_def u)
qed

lemma double_zero: "double 0 = 0"
  by (simp add: double_def round_half_even_def)

lemma double_nonneg:
  assumes "0 \<le> x"
  shows "0 \<le> double x"
proof -
  have "of_int 0 \<le> x / ulp x" using assms ulp_pos [of x] by simp
  then have "0 \<le> round_half_even (x / ulp x)"
    by (rule round_half_even_bounds(1) [where hi = "\<lceil>x / ulp x\<rceil>"]) simp
  then show ?thesis using ulp_pos [of x] by (simp add: double_def)
qed

lemma double_le_nat:
  assumes "0 \<le> x" and "x \<le> of_nat m" and "m \<le> 2 ^ 52"
  shows "double x \<le> of_nat m"
proof -
  have m: "(of_nat m :: rat) \<le> 2 ^ 52"
  proof -
    have "(of_nat m :: rat) \<le> of_nat (2 ^ 52)" using assms(3) by (simp only: of_nat_le_iff)
    then show ?thesis by simp
  qed
  have "\<exists>k. ulp x = 1 / 2 ^ k"
  proof (cases "x < 2 ^ 52")
    case True
    then show ?thesis using ulp_down_power [of 1074 x 0] assms(1) by (simp add: ulp_def)
  next
    case False
    then have "x < 2 ^ 53 * 1" using assms(2) m by simp
    then have "ulp_up 971 x 1 = 1" by (rule ulp_up_stop)
    then have "ulp x = 1 / 2 ^ 0" using False assms(1) by (simp add: ulp_def)
    then show ?thesis by blast
  qed
  then obtain k where u: "ulp x = 1 / 2 ^ k" by blast
  have "x * 2 ^ k \<le> of_nat m * 2 ^ k" using assms(2) by (intro mult_right_mono) simp_all
  then have "x * 2 ^ k \<le> of_int (int m * 2 ^ k)" by simp
  then have "round_half_even (x * 2 ^ k) \<le> int m * 2 ^ k"
    by (rule round_half_even_bounds(2) [where lo = "\<lfloor>x * 2 ^ k\<rfloor>", rotated]) simp
  then have "(of_int (round_half_even (x * 2 ^ k)) :: rat) \<le> of_int (int m * 2 ^ k)"
    by (simp only: of_int_le_iff)
  then have "(of_int (round_half_even (x * 2 ^ k)) :: rat) / 2 ^ k \<le> of_nat m"
    by (simp add: field_simps)
  then show ?thesis by (simp add: double_def u)
qed

lemmas double_evals =
  double_eval [where k = 46] double_eval [where k = 47] double_eval [where k = 48]
  double_eval [where k = 49] double_eval [where k = 50] double_eval [where k = 51]
  double_eval [where k = 52] double_eval [where k = 53] double_eval [where k = 54]
  double_eval [where k = 55] double_eval [where k = 56] double_eval [where k = 57]


lemmas double_simps = double_evals double_zero round_half_even_numeral round_half_even_int_numeral

lemma truediv_unit:
  assumes "0 \<le> a" and "a \<le> b"
  shows "0 \<le> truediv a b" and "truediv a b \<le> 1"
proof -
  have n: "(0::rat) \<le> of_int a / of_int b" using assms by simp
  have u: "(of_int a :: rat) / of_int b \<le> of_nat 1"
  proof (cases "b = 0")
    case True
    then show ?thesis by simp
  next
    case False
    then have "(0::rat) < of_int b" using assms by simp
    moreover have "(of_int a :: rat) \<le> of_int b" using assms(2) by (simp only: of_int_le_iff)
    ultimately show ?thesis by (simp add: divide_le_eq_1_pos)
  qed
  show "0 \<le> truediv a b" unfolding truediv_def by (rule double_nonneg [OF n])
  have "truediv a b \<le> of_nat 1" unfolding truediv_def by (rule double_le_nat [OF n u]) simp
  then show "truediv a b \<le> 1" by simp
qed

lemma truediv_nonneg:
  assumes "0 \<le> a" and "0 \<le> b"
  shows "0 \<le> truediv a b"
  unfolding truediv_def by (rule double_nonneg) (use assms in simp)

lemma fsub_unit:
  assumes "0 \<le> y" and "y \<le> 1"
  shows "0 \<le> fsub 1 y" and "fsub 1 y \<le> 1"
proof -
  have n: "0 \<le> 1 - y" using assms by simp
  have u: "1 - y \<le> of_nat 1" using assms by simp
  show "0 \<le> fsub 1 y" unfolding fsub_def by (rule double_nonneg [OF n])
  have "fsub 1 y \<le> of_nat 1" unfolding fsub_def by (rule double_le_nat [OF n u]) simp
  then show "fsub 1 y \<le> 1" by simp
qed

lemma fadd_bounds:
  assumes "0 \<le> x" and "x \<le> of_nat m" and "0 \<le> y" and "y \<le> 1" and "m < 100"
  shows "0 \<le> fadd x y" and "fadd x y \<le> of_nat (Suc m)"
proof -
  have n: "0 \<le> x + y" using assms by simp
  have u: "x + y \<le> of_nat (Suc m)" using assms by simp
  have "(100::nat) \<le> 2 ^ 52" by simp
  then have b: "Suc m \<le> 2 ^ 52" using assms(5) by linarith
  show "0 \<le> fadd x y" unfolding fadd_def by (rule double_nonneg [OF n])
  show "fadd x y \<le> of_nat (Suc m)" unfolding fadd_def by (rule double_le_nat [OF n u b])
qed

lemma fsum4_bounds:
  assumes "0 \<le> a" "a \<le> 1" "0 \<le> b" "b \<le> 1" "0 \<le> c" "c \<le> 1" "0 \<le> d" "d \<le> 1"
  shows "0 \<le> fsum [a, b, c, d]" and "fsum [a, b, c, d] \<le> 4"
proof -
  have z: "(0::rat) \<le> 0" "(0::rat) \<le> of_nat 0" by simp_all
  note s1 = fadd_bounds [OF z assms(1,2)]
  have s1n: "0 \<le> fadd 0 a" and s1u: "fadd 0 a \<le> of_nat (Suc 0)" using s1 by simp_all
  note s2 = fadd_bounds [OF s1n s1u assms(3,4)]
  have s2n: "0 \<le> fadd (fadd 0 a) b" and s2u: "fadd (fadd 0 a) b \<le> of_nat (Suc (Suc 0))"
    using s2 by simp_all
  note s3 = fadd_bounds [OF s2n s2u assms(5,6)]
  have s3n: "0 \<le> fadd (fadd (fadd 0 a) b) c"
    and s3u: "fadd (fadd (fadd 0 a) b) c \<le> of_nat (Suc (Suc (Suc 0)))"
    using s3 by simp_all
  note s4 = fadd_bounds [OF s3n s3u assms(7,8)]
  have e: "fsum [a, b, c, d] = fadd (fadd (fadd (fadd 0 a) b) c) d" by (simp add: fsum_def)
  show "0 \<le> fsum [a, b, c, d]" unfolding e using s4 by simp
  have "fadd (fadd (fadd (fadd 0 a) b) c) d \<le> of_nat (Suc (Suc (Suc (Suc 0))))" using s4 by simp
  then show "fsum [a, b, c, d] \<le> 4" unfolding e by simp
qed

lemma fdiv4_unit:
  assumes "0 \<le> s" and "s \<le> 4"
  shows "0 \<le> fdiv s 4" and "fdiv s 4 \<le> 1"
proof -
  have n: "0 \<le> s / 4" using assms by simp
  have u: "s / 4 \<le> of_nat 1" using assms by simp
  show "0 \<le> fdiv s 4" unfolding fdiv_def by (rule double_nonneg [OF n])
  have "fdiv s 4 \<le> of_nat 1" unfolding fdiv_def by (rule double_le_nat [OF n u]) simp
  then show "fdiv s 4 \<le> 1" by simp
qed

lemma fmul_nonneg: "0 \<le> x \<Longrightarrow> 0 \<le> y \<Longrightarrow> 0 \<le> fmul x y"
  unfolding fmul_def by (rule double_nonneg) simp


subsection \<open>The random source\<close>

lemma randint_range:
  assumes "a \<le> b"
  shows "a \<le> fst (randint a b g)" and "fst (randint a b g) \<le> b"
proof -
  have pos: "0 < nat (b - a + 1)" using assms by simp
  have "g 0 mod nat (b - a + 1) < nat (b - a + 1)" using pos by simp
  then have "int (g 0 mod nat (b - a + 1)) < b - a + 1" using assms by linarith
  then show "a \<le> fst (randint a b g)" and "fst (randint a b g) \<le> b"
    by (simp_all add: randint_def)
qed

lemma randint_onto:
  assumes "a \<le> x" and "x \<le> b"
  shows "fst (randint a b (\<lambda>_. nat (x - a))) = x"
  using assms by (simp add: randint_def)

subsection \<open>Variation Injector\<close>

lemma variation_range_bounds:
  "5 \<le> min 15 (max 5 (wc div 10 :: int))" "min 15 (max 5 (wc div 10 :: int)) \<le> 15"
  by simp_all

lemma add_natural_variation_eq:
  "fst (add_natural_variation b wc g) =
     min 100 (max 40 (b + fst (randint (- min 15 (max 5 (wc div 10))) (min 15 (max 5 (wc div 10))) g)))"
  by (simp add: add_natural_variation_def Let_def case_prod_beta)

lemma add_natural_variation_range:
  "40 \<le> fst (add_natural_variation b wc g)" "fst (add_natural_variation b wc g) \<le> 100"
  by (simp_all add: add_natural_variation_eq)

lemma snd_randint: "snd (randint a b g) = advance 1 g"
  by (simp add: randint_def advance_def)

lemma advance_advance: "advance m (advance n g) = advance (n + m) g"
  by (simp add: advance_def ac_simps)

lemma snd_add_natural_variation: "snd (add_natural_variation b wc g) = advance 1 g"
  by (simp add: add_natural_variation_def Let_def case_prod_beta snd_randint)

text \<open>
  Claim C4. For every base score, every word count and every state of the random source,
  the Variation Injector returns the base score plus the jitter it draws, clamped to the
  range 40 to 100; the jitter lies between \<open>- v\<close> and \<open>v\<close>, where \<open>v\<close> is the word
  count floor-divided by 10 and clamped to the range 5 to 15. In particular the result
  lies between 40 and 100.
\<close>

theorem add_natural_variation_clamped:
  "let v = min 15 (max 5 (word_count div 10));
       jitter = fst (randint (- v) v g);
       r = fst (add_natural_variation base_score word_count g)
   in v = clamp (word_count div 10) 5 15
      \<and> - v \<le> jitter \<and> jitter \<le> v
      \<and> r = clamp (base_score + jitter) 40 100
      \<and> 40 \<le> r \<and> r \<le> 100"
proof -
  let ?v = "min 15 (max 5 (word_count div 10))"
  have v: "- ?v \<le> ?v" using variation_range_bounds [of word_count] by linarith
  have 1: "?v = clamp (word_count div 10) 5 15" by (simp add: clamp_def)
  have 2: "fst (add_natural_variation base_score word_count g)
             = clamp (base_score + fst (randint (- ?v) ?v g)) 40 100"
    by (simp add: add_natural_variation_eq clamp_def)
  show ?thesis
    unfolding Let_def
  proof (intro conjI)
    show "?v = clamp (word_count div 10) 5 15" by (rule 1)
    show "- ?v \<le> fst (randint (- ?v) ?v g)" by (rule randint_range(1) [OF v])
    show "fst (randint (- ?v) ?v g) \<le> ?v" by (rule randint_range(2) [OF v])
    show "fst (add_natural_variation base_score word_count g)
            = clamp (base_score + fst (randint (- ?v) ?v g)) 40 100" by (rule 2)
    show "40 \<le> fst (add_natural_variation base_score word_count g)"
      by (rule add_natural_variation_range)
    show "fst (add_natural_variation base_score word_count g) \<le> 100"
      by (rule add_natural_variation_range)
  qed
qed

subsection \<open>Lexical features and score calculators\<close>

lemma sum_list_const: "sum_list (map (\<lambda>_. k) ys) = int (length ys) * (k::int)"
  by (induction ys) (simp_all add: algebra_simps)

lemma indicator_sum_nonneg: "0 \<le> k \<Longrightarrow> 0 \<le> indicator_sum k xs t"
  by (simp add: indicator_sum_def sum_list_const)

lemma indicator_sum_le: "0 \<le> k \<Longrightarrow> indicator_sum k xs t \<le> int (length xs) * k"
proof -
  assume k: "0 \<le> k"
  have "length (filter (\<lambda>x. contains (lower t) x) xs) \<le> length xs" by simp
  then have "int (length (filter (\<lambda>x. contains (lower t) x) xs)) * k \<le> int (length xs) * k"
    using k by (intro mult_right_mono) simp_all
  then show ?thesis by (simp add: indicator_sum_def sum_list_const)
qed

lemma filter_ratio:
  "0 \<le> truediv (int (length (filter P xs))) (int (length xs))"
  "truediv (int (length (filter P xs))) (int (length xs)) \<le> 1"
  by (rule truediv_unit, simp, simp)+

text \<open>The fields of the speech analysis, in terms of the counts they are computed from.\<close>

lemma speech_analysis_fields:
  "filler_word_count (analyze_speech_patterns t ws wc) =
     sum_list (map (\<lambda>filler. int (count (lower t) filler)) filler_words)"
  "complexity_score (analyze_speech_patterns t ws wc) =
     (if sentences_of t \<noteq> []
      then truediv (int (length (filter (\<lambda>s. 15 < length (split s)) (sentences_of t))))
             (int (length (sentences_of t)))
      else 0)"
  "flow_score (analyze_speech_patterns t ws wc) =
     (if sentences_of t \<noteq> []
      then fsub 1 (truediv (int (length (filter (\<lambda>s. length (split s) < 5) (sentences_of t))))
                     (int (length (sentences_of t))))
      else 0)"
  "has_questions (analyze_speech_patterns t ws wc) = (CHR ''?'' \<in> set t)"
  "has_exclamations (analyze_speech_patterns t ws wc) = (CHR ''!'' \<in> set t)"
  "formal_language_count (analyze_speech_patterns t ws wc) =
     int (length (filter (\<lambda>word. lower word \<in> set formal_words) ws))"
  unfolding analyze_speech_patterns_def Let_def speech_analysis.simps by (rule refl)+

lemma quality_rating_eq:
  "quality_rating (analyze_speech_patterns t ws wc) =
     fdiv (fsum [fsub 1 (min (truediv (filler_word_count (analyze_speech_patterns t ws wc)) 10) (1 / 2)),
                 min (complexity_score (analyze_speech_patterns t ws wc)) 1,
                 flow_score (analyze_speech_patterns t ws wc),
                 min (truediv wc 50) 1]) 4"
  unfolding analyze_speech_patterns_def Let_def speech_analysis.simps by simp

lemma complexity_score_bounds:
  "0 \<le> complexity_score (analyze_speech_patterns t ws wc)"
  "complexity_score (analyze_speech_patterns t ws wc) \<le> 1"
  unfolding speech_analysis_fields by (simp_all add: filter_ratio)

lemma flow_score_bounds:
  "0 \<le> flow_score (analyze_speech_patterns t ws wc)"
  "flow_score (analyze_speech_patterns t ws wc) \<le> 1"
  unfolding speech_analysis_fields by (simp_all add: fsub_unit filter_ratio)

lemma filler_word_count_nonneg: "0 \<le> filler_word_count (analyze_speech_patterns t ws wc)"
  unfolding speech_analysis_fields by (rule sum_list_nonneg) auto

lemma formal_language_count_nonneg: "0 \<le> formal_language_count (analyze_speech_patterns t ws wc)"
  unfolding speech_analysis_fields by simp

lemma quality_components_unit:
  assumes "0 \<le> wc"
  shows "0 \<le> fsub 1 (min (truediv (filler_word_count (analyze_speech_patterns t ws wc)) 10) (1 / 2))"
    and "fsub 1 (min (truediv (filler_word_count (analyze_speech_patterns t ws wc)) 10) (1 / 2)) \<le> 1"
    and "0 \<le> min (complexity_score (analyze_speech_patterns t ws wc)) 1"
    and "min (complexity_score (analyze_speech_patterns t ws wc)) 1 \<le> 1"
    and "0 \<le> min (truediv wc 50) 1"
    and "min (truediv wc 50) 1 \<le> 1"
proof -
  let ?sa = "analyze_speech_patterns t ws wc"
  have f: "0 \<le> truediv (filler_word_count ?sa) 10"
    by (rule truediv_nonneg [OF filler_word_count_nonneg]) simp
  have m: "0 \<le> min (truediv (filler_word_count ?sa) 10) (1 / 2)"
    "min (truediv (filler_word_count ?sa) 10) (1 / 2) \<le> 1"
    using f by simp_all
  show "0 \<le> fsub 1 (min (truediv (filler_word_count ?sa) 10) (1 / 2))"
    by (rule fsub_unit [OF m])
  show "fsub 1 (min (truediv (filler_word_count ?sa) 10) (1 / 2)) \<le> 1"
    by (rule fsub_unit [OF m])
  show "0 \<le> min (complexity_score ?sa) 1" using complexity_score_bounds(1) [of t ws wc] by simp
  show "min (complexity_score ?sa) 1 \<le> 1" by simp
  have "0 \<le> truediv wc 50" by (rule truediv_nonneg [OF assms]) simp
  then show "0 \<le> min (truediv wc 50) 1" by simp
  show "min (truediv wc 50) 1 \<le> 1" by simp
qed

lemma quality_rating_bounds:
  assumes "0 \<le> wc"
  shows "0 \<le> quality_rating (analyze_speech_patterns t ws wc)"
    and "quality_rating (analyze_speech_patterns t ws wc) \<le> 1"
proof -
  note c = quality_components_unit [OF assms] and fl = flow_score_bounds [of t ws wc]
  note s = fsum4_bounds [OF c(1) c(2) c(3) c(4) fl(1) fl(2) c(5) c(6)]
  show "0 \<le> quality_rating (analyze_speech_patterns t ws wc)"
    unfolding quality_rating_eq by (rule fdiv4_unit [OF s])
  show "quality_rating (analyze_speech_patterns t ws wc) \<le> 1"
    unfolding quality_rating_eq by (rule fdiv4_unit [OF s])
qed

lemma py_int_nonneg: "0 \<le> x \<Longrightarrow> 0 \<le> py_int x"
  by (simp add: py_int_def)

lemma py_int_numeral:
  "py_int (numeral a / numeral b) = numeral a div numeral b"
  "py_int (numeral a) = numeral a" "py_int 1 = 1" "py_int 0 = 0"
proof -
  have "\<lfloor>(of_int (numeral a) :: rat) / of_int (numeral b)\<rfloor> = numeral a div numeral b"
    by (rule floor_divide_of_int_eq)
  then show "py_int (numeral a / numeral b) = numeral a div numeral b"
    by (simp add: py_int_def)
qed (simp_all add: py_int_def)

lemmas float_simps = truediv_def fadd_def fsub_def fmul_def fdiv_def fsum_def double_simps
  py_int_numeral

lemma min_max_bounds:
  fixes x :: int
  shows "lo \<le> hi \<Longrightarrow> lo \<le> min hi (max lo x)" and "min hi (max lo x) \<le> hi"
  by simp_all

lemma clarity_lower:
  fixes b :: int
  assumes "60 \<le> b" and "0 \<le> cb" and "fp \<le> 15" and "0 \<le> qb"
  shows "45 \<le> min 100 (b + cb - fp + qb)"
  using assms by simp

lemma clarity_bounds:
  assumes "0 \<le> quality_rating sa"
  shows "45 \<le> calculate_enhanced_clarity_score t wc avg sa"
    and "calculate_enhanced_clarity_score t wc avg sa \<le> 100"
proof -
  have q: "0 \<le> fmul (quality_rating sa) 10" using assms by (intro fmul_nonneg) simp_all
  show "45 \<le> calculate_enhanced_clarity_score t wc avg sa"
    unfolding calculate_enhanced_clarity_score_def Let_def
    apply (rule clarity_lower)
       apply simp
      apply (rule indicator_sum_nonneg)
      apply simp
     apply simp
    apply (rule py_int_nonneg [OF q])
    done
  show "calculate_enhanced_clarity_score t wc avg sa \<le> 100"
    unfolding calculate_enhanced_clarity_score_def Let_def
    by (rule min.cobounded1)
qed

lemma confidence_bounds:
  "30 \<le> calculate_enhanced_confidence_score t sa"
  "calculate_enhanced_confidence_score t sa \<le> 100"
  unfolding calculate_enhanced_confidence_score_def Let_def
  by (rule min_max_bounds, simp) (rule min_max_bounds)

lemma articulation_bounds:
  "35 \<le> calculate_enhanced_articulation_score t wc vd sa"
  "calculate_enhanced_articulation_score t wc vd sa \<le> 100"
  unfolding calculate_enhanced_articulation_score_def Let_def
  by (rule min_max_bounds, simp) (rule min_max_bounds)


lemma derived_quality_rating_nonneg:
  "0 \<le> quality_rating (analyze_speech_patterns t (split t) (int (length (split t))))"
  by (rule quality_rating_bounds(1)) simp

text \<open>
  Claim C3. For every transcript, with the features the analyser derives from it (its
  words, word count, average sentence length, vocabulary diversity and speech analysis,
  the floats among them being the doubles the program computes), the scores of the three
  enhanced calculators, before any jitter, satisfy: clarity lies between 0 and 100,
  articulation lies between 0 and 100, confidence lies between 30 and 100. The clarity
  calculator only applies an upper clamp; its lower bound holds because the filler penalty
  is at most 15 and the bonuses are not negative (the quality rating, a double, is not
  negative, so neither is its product with 10 nor the truncation of that product).
\<close>

theorem enhanced_scores_in_range:
  "let words = split t;
       word_count = int (length words);
       avg = avg_words_per_sentence_of word_count (sentence_count_of t);
       vd = vocabulary_diversity_of words;
       sa = analyze_speech_patterns t words word_count;
       clarity_score = calculate_enhanced_clarity_score t word_count avg sa;
       confidence_score = calculate_enhanced_confidence_score t sa;
       articulation_score = calculate_enhanced_articulation_score t word_count vd sa
   in 0 \<le> clarity_score \<and> clarity_score \<le> 100
      \<and> 0 \<le> articulation_score \<and> articulation_score \<le> 100
      \<and> 30 \<le> confidence_score \<and> confidence_score \<le> 100"
proof -
  let ?wc = "int (length (split t))"
  let ?sa = "analyze_speech_patterns t (split t) ?wc"
  let ?a = "calculate_enhanced_articulation_score t ?wc (vocabulary_diversity_of (split t)) ?sa"
  have a: "0 \<le> ?a" using articulation_bounds(1) [of t ?wc "vocabulary_diversity_of (split t)" ?sa]
    by linarith
  show ?thesis
    unfolding Let_def
  proof (intro conjI)
    show "0 \<le> calculate_enhanced_clarity_score t ?wc
            (avg_words_per_sentence_of ?wc (sentence_count_of t)) ?sa"
      using clarity_bounds(1) [OF derived_quality_rating_nonneg [of t],
          of t ?wc "avg_words_per_sentence_of ?wc (sentence_count_of t)"]
      by linarith
    show "calculate_enhanced_clarity_score t ?wc
            (avg_words_per_sentence_of ?wc (sentence_count_of t)) ?sa \<le> 100"
      by (rule clarity_bounds(2) [OF derived_quality_rating_nonneg])
    show "0 \<le> ?a" by (rule a)
    show "?a \<le> 100" by (rule articulation_bounds(2))
    show "30 \<le> calculate_enhanced_confidence_score t ?sa" by (rule confidence_bounds(1))
    show "calculate_enhanced_confidence_score t ?sa \<le> 100" by (rule confidence_bounds(2))
  qed
qed


theorem enhanced_scores_in_range_witness:
  "let t = ''I think this is clear. Maybe we could explain it better!'';
       words = split t;
       word_count = int (length words);
       avg = avg_words_per_sentence_of word_count (sentence_count_of t);
       vd = vocabulary_diversity_of words;
       sa = analyze_speech_patterns t words word_count;
       clarity_score = calculate_enhanced_clarity_score t word_count avg sa;
       confidence_score = calculate_enhanced_confidence_score t sa;
       articulation_score = calculate_enhanced_articulation_score t word_count vd sa
   in 0 \<le> clarity_score \<and> clarity_score \<le> 100
      \<and> 0 \<le> articulation_score \<and> articulation_score \<le> 100
      \<and> 30 \<le> confidence_score \<and> confidence_score \<le> 100"
  using enhanced_scores_in_range [of "''I think this is clear. Maybe we could explain it better!''"]
  unfolding Let_def .

subsection \<open>Fallback Generator\<close>

lemma fallback_clamp:
  assumes "65 \<le> b" and "b \<le> 85" and "- 10 \<le> j" and "j \<le> 10"
  shows "min 100 (max 40 (b + j)) = b + (j::int)"
  using assms by simp

lemma fallback_unclamped:
  "min 100 (max 40 (fst (randint 65 85 g) + fst (randint (- 10) 10 h)))
     = fst (randint 65 85 g) + fst (randint (- 10) 10 h)"
  by (rule fallback_clamp) (simp_all add: randint_range)

lemma Suc_numerals:
  "Suc (Suc 0) = 2" "Suc (Suc (Suc 0)) = 3"
  "Suc (Suc (Suc (Suc 0))) = 4" "Suc (Suc (Suc (Suc (Suc 0)))) = 5"
  by arith+

lemma fallback_scores:
  "ar_clarity (fst (generate_random_evaluation reason g))
     = fst (randint 65 85 g) + fst (randint (- 10) 10 (advance 3 g))"
  "ar_confidence (fst (generate_random_evaluation reason g))
     = fst (randint 65 85 (advance 1 g)) + fst (randint (- 10) 10 (advance 4 g))"
  "ar_articulation (fst (generate_random_evaluation reason g))
     = fst (randint 65 85 (advance 2 g)) + fst (randint (- 10) 10 (advance 5 g))"
  unfolding generate_random_evaluation_def Let_def case_prod_beta snd_randint advance_advance
    fst_conv analysis_results.simps fallback_unclamped
  by (simp_all add: Suc_numerals)


lemma base_draw_range: "65 \<le> fst (randint 65 85 g)" "fst (randint 65 85 g) \<le> 85"
  by (rule randint_range, simp)+

lemma jitter_draw_range: "- 10 \<le> fst (randint (- 10) 10 g)" "fst (randint (- 10) 10 g) \<le> 10"
  by (rule randint_range, simp)+

lemma fallback_sum_range:
  "55 \<le> fst (randint 65 85 g) + fst (randint (- 10) 10 h)"
  "fst (randint 65 85 g) + fst (randint (- 10) 10 h) \<le> 95"
  using base_draw_range [of g] jitter_draw_range [of h] by linarith+

lemma fallback_clamp_id:
  "clamp (fst (randint 65 85 g) + fst (randint (- 10) 10 h)) 40 100
     = fst (randint 65 85 g) + fst (randint (- 10) 10 h)"
  using fallback_sum_range [of g h] by (simp add: clamp_def)

text \<open>
  Claim C10. For every state of the random source, the Fallback Generator draws three
  bases, each between 65 and 85, and then three jitters, each between \<open>- 10\<close> and 10;
  each of its three scores is the sum of its base and its jitter and lies between 55 and
  95, and clamping that sum to the range 40 to 100 leaves it unchanged.
\<close>

theorem generate_random_evaluation_scores:
  "let r = fst (generate_random_evaluation reason g);
       b1 = fst (randint 65 85 g);
       b2 = fst (randint 65 85 (advance 1 g));
       b3 = fst (randint 65 85 (advance 2 g));
       j1 = fst (randint (- 10) 10 (advance 3 g));
       j2 = fst (randint (- 10) 10 (advance 4 g));
       j3 = fst (randint (- 10) 10 (advance 5 g))
   in (65 \<le> b1 \<and> b1 \<le> 85 \<and> - 10 \<le> j1 \<and> j1 \<le> 10
       \<and> ar_clarity r = b1 + j1 \<and> clamp (b1 + j1) 40 100 = b1 + j1
       \<and> 55 \<le> ar_clarity r \<and> ar_clarity r \<le> 95)
      \<and> (65 \<le> b2 \<and> b2 \<le> 85 \<and> - 10 \<le> j2 \<and> j2 \<le> 10
       \<and> ar_confidence r = b2 + j2 \<and> clamp (b2 + j2) 40 100 = b2 + j2
       \<and> 55 \<le> ar_confidence r \<and> ar_confidence r \<le> 95)
      \<and> (65 \<le> b3 \<and> b3 \<le> 85 \<and> - 10 \<le> j3 \<and> j3 \<le> 10
       \<and> ar_articulation r = b3 + j3 \<and> clamp (b3 + j3) 40 100 = b3 + j3
       \<and> 55 \<le> ar_articulation r \<and> ar_articulation r \<le> 95)"
  unfolding Let_def fallback_scores
  by (intro conjI base_draw_range jitter_draw_range fallback_sum_range fallback_clamp_id refl)


theorem generate_random_evaluation_scores_witness:
  "ar_clarity (fst (generate_random_evaluation ''none'' (\<lambda>i. 7 * i + 3))) = 68 + (- 7)
   \<and> ar_confidence (fst (generate_random_evaluation ''none'' (\<lambda>i. 7 * i + 3))) = 75 + 0
   \<and> ar_articulation (fst (generate_random_evaluation ''none'' (\<lambda>i. 7 * i + 3))) = 82 + 7"
  using generate_random_evaluation_scores [of "''none''" "\<lambda>i. 7 * i + 3"]
  unfolding Let_def
  by (simp add: randint_def advance_def)

subsection \<open>Legacy and enhanced confidence\<close>

lemma max_min_bounds:
  fixes x :: int
  shows "lo \<le> max lo (min hi x)" and "lo \<le> hi \<Longrightarrow> max lo (min hi x) \<le> hi"
  by simp_all

lemma legacy_confidence_bounds:
  "0 \<le> calculate_confidence_score t k" "calculate_confidence_score t k \<le> 100"
  unfolding calculate_confidence_score_def Let_def
  by (rule max_min_bounds) (rule max_min_bounds, simp)

lemma legacy_lower:
  fixes kb :: int
  assumes "0 \<le> kb" and "0 \<le> cb" and "hp \<le> 18"
  shows "47 \<le> max 0 (min 100 (65 + kb + cb - hp))"
  using assms by simp

lemma legacy_confidence_of_count: "47 \<le> calculate_confidence_score t (int n)"
  unfolding calculate_confidence_score_def Let_def
  apply (rule legacy_lower)
    apply simp
   apply (rule indicator_sum_nonneg)
   apply simp
  apply (rule order_trans [OF indicator_sum_le])
   apply simp
  apply simp
  done

lemma indicator_sum_empty: "indicator_sum k xs [] = int (length (filter (\<lambda>x. x = []) xs)) * k"
  by (simp add: indicator_sum_def contains_def lower_def sum_list_const)

lemma legacy_confidence_below_30: "calculate_confidence_score [] (- 12) = 29"
  unfolding calculate_confidence_score_def Let_def indicator_sum_empty
  by simp

lemma legacy_keyword_count_eq:
  "legacy_keyword_count t =
     int (length (filter (\<lambda>keyword. contains (lower t) (lower keyword)) positive_keywords))"
  by (simp add: legacy_keyword_count_def sum_list_const)

lemma legacy_confidence_of_keywords: "47 \<le> calculate_confidence_score t (legacy_keyword_count t)"
  unfolding legacy_keyword_count_eq by (rule legacy_confidence_of_count)

lemma plain_transcript_confidence:
  "calculate_confidence_score ''this is a plain transcript''
     (legacy_keyword_count ''this is a plain transcript'') = 65"
  "calculate_enhanced_confidence_score ''this is a plain transcript''
     (analyze_speech_patterns ''this is a plain transcript'' (split ''this is a plain transcript'')
        (int (length (split ''this is a plain transcript'')))) = 55"
proof -
  show "calculate_confidence_score ''this is a plain transcript''
     (legacy_keyword_count ''this is a plain transcript'') = 65"
    by code_simp
  show "calculate_enhanced_confidence_score ''this is a plain transcript''
     (analyze_speech_patterns ''this is a plain transcript'' (split ''this is a plain transcript'')
        (int (length (split ''this is a plain transcript'')))) = 55"
    unfolding calculate_enhanced_confidence_score_def speech_analysis_fields
    by code_simp
qed

text \<open>
  Claim C6 (as the specification states it, refuted). The legacy confidence calculator is
  called in one place only, with the number of positive keywords found in the transcript.
  With that count its result is at least 47 for every transcript: in the legacy pipeline
  the confidence score never falls below 30.
\<close>

theorem legacy_confidence_never_below_30:
  "\<forall>t. 47 \<le> calculate_confidence_score t (legacy_keyword_count t)
       \<and> \<not> calculate_confidence_score t (legacy_keyword_count t) < 30"
proof
  fix t
  have "47 \<le> calculate_confidence_score t (legacy_keyword_count t)"
    by (rule legacy_confidence_of_keywords)
  then show "47 \<le> calculate_confidence_score t (legacy_keyword_count t)
       \<and> \<not> calculate_confidence_score t (legacy_keyword_count t) < 30"
    by linarith
qed

text \<open>
  Claim C6 (amended). The enhanced confidence calculator returns a score between 30 and
  100 for every transcript and every feature set. The legacy confidence calculator returns
  a score between 0 and 100 for every transcript and every keyword count, and a score of
  at least 47 for every keyword count that is not negative, in particular for the count
  its caller passes; its score is below 30 only for a negative keyword count. The two
  calculators are nevertheless not equal on the transcripts both pipelines evaluate: for
  \<open>this is a plain transcript\<close> the legacy pipeline computes 65 and the enhanced
  pipeline computes 55.
\<close>

theorem confidence_calculators_differ:
  "(\<forall>t sa. 30 \<le> calculate_enhanced_confidence_score t sa
            \<and> calculate_enhanced_confidence_score t sa \<le> 100)
   \<and> (\<forall>t k. 0 \<le> calculate_confidence_score t k \<and> calculate_confidence_score t k \<le> 100)
   \<and> (\<forall>t k. 0 \<le> k \<longrightarrow> 47 \<le> calculate_confidence_score t k)
   \<and> (\<forall>t. 47 \<le> calculate_confidence_score t (legacy_keyword_count t))
   \<and> (\<forall>t k. calculate_confidence_score t k < 30 \<longrightarrow> k < 0)
   \<and> (let t = ''this is a plain transcript''
      in calculate_confidence_score t (legacy_keyword_count t) = 65
         \<and> calculate_enhanced_confidence_score t
              (analyze_speech_patterns t (split t) (int (length (split t)))) = 55)"
proof -
  have nn: "47 \<le> calculate_confidence_score t k" if "0 \<le> k" for t k
  proof -
    have "47 \<le> calculate_confidence_score t (int (nat k))" by (rule legacy_confidence_of_count)
    then show ?thesis using that by simp
  qed
  have neg: "k < 0" if "calculate_confidence_score t k < 30" for t k
  proof (rule ccontr)
    assume "\<not> k < 0"
    then have "47 \<le> calculate_confidence_score t k" by (intro nn) simp
    then show False using that by simp
  qed
  show ?thesis
    unfolding Let_def
  proof (intro conjI allI impI)
    fix t sa k
    show "30 \<le> calculate_enhanced_confidence_score t sa" by (rule confidence_bounds)
    show "calculate_enhanced_confidence_score t sa \<le> 100" by (rule confidence_bounds)
    show "0 \<le> calculate_confidence_score t k" by (rule legacy_confidence_bounds)
    show "calculate_confidence_score t k \<le> 100" by (rule legacy_confidence_bounds)
    show "47 \<le> calculate_confidence_score t (legacy_keyword_count t)"
      by (rule legacy_confidence_of_keywords)
    show "calculate_confidence_score ''this is a plain transcript''
            (legacy_keyword_count ''this is a plain transcript'') = 65"
      by (rule plain_transcript_confidence)
    show "calculate_enhanced_confidence_score ''this is a plain transcript''
            (analyze_speech_patterns ''this is a plain transcript''
               (split ''this is a plain transcript'')
               (int (length (split ''this is a plain transcript'')))) = 55"
      by (rule plain_transcript_confidence)
  next
    fix t :: string and k :: int
    assume "0 \<le> k"
    then show "47 \<le> calculate_confidence_score t k" by (rule nn)
  next
    fix t :: string and k :: int
    assume "calculate_confidence_score t k < 30"
    then show "k < 0" by (rule neg)
  qed
qed

theorem confidence_calculators_differ_witness:
  "calculate_confidence_score [] (- 12) = 29 \<and> (- 12 :: int) < 0
   \<and> 47 \<le> calculate_confidence_score ''um, like, you know'' 0"
proof -
  have a: "calculate_confidence_score [] (- 12) < 30" by (simp add: legacy_confidence_below_30)
  have b: "(0::int) \<le> 0" by simp
  show ?thesis
    using confidence_calculators_differ a b legacy_confidence_below_30 by blast
qed

subsection \<open>Filler words and the scores\<close>

lemma filler_word_count_update:
  "filler_word_count (sa\<lparr>filler_word_count := v\<rparr>) = v"
  "quality_rating (sa\<lparr>filler_word_count := v\<rparr>) = quality_rating sa"
  "formal_language_count (sa\<lparr>filler_word_count := v\<rparr>) = formal_language_count sa"
  by simp_all

lemma clarity_filler_step:
  fixes x :: int
  shows "min 100 (x - min 15 ((f + 1) * 2) + q) \<le> min 100 (x - min 15 (f * 2) + q)"
    and "min 100 (x - min 15 ((f + 1) * 2) + q) < min 100 (x - min 15 (f * 2) + q)
           \<longleftrightarrow> f \<le> 7 \<and> min 100 (x - min 15 ((f + 1) * 2) + q) < 100"
  by (auto simp: min_def)

lemma confidence_filler_step:
  fixes x :: int
  shows "min 100 (max 30 (x - min 20 ((f + 1) * 3) + q)) \<le> min 100 (max 30 (x - min 20 (f * 3) + q))"
    and "min 100 (max 30 (x - min 20 ((f + 1) * 3) + q)) < min 100 (max 30 (x - min 20 (f * 3) + q))
           \<longleftrightarrow> f \<le> 6 \<and> min 100 (max 30 (x - min 20 ((f + 1) * 3) + q)) < 100
               \<and> 30 < min 100 (max 30 (x - min 20 (f * 3) + q))"
  by (auto simp: min_def max_def)

lemma clarity_filler_increase:
  "calculate_enhanced_clarity_score t wc avg (sa\<lparr>filler_word_count := filler_word_count sa + 1\<rparr>)
     \<le> calculate_enhanced_clarity_score t wc avg sa"
  "calculate_enhanced_clarity_score t wc avg (sa\<lparr>filler_word_count := filler_word_count sa + 1\<rparr>)
     < calculate_enhanced_clarity_score t wc avg sa
   \<longleftrightarrow> filler_word_count sa \<le> 7
       \<and> calculate_enhanced_clarity_score t wc avg
           (sa\<lparr>filler_word_count := filler_word_count sa + 1\<rparr>) < 100"
  unfolding calculate_enhanced_clarity_score_def Let_def filler_word_count_update
  by (rule clarity_filler_step)+

lemma confidence_filler_increase:
  "calculate_enhanced_confidence_score t (sa\<lparr>filler_word_count := filler_word_count sa + 1\<rparr>)
     \<le> calculate_enhanced_confidence_score t sa"
  "calculate_enhanced_confidence_score t (sa\<lparr>filler_word_count := filler_word_count sa + 1\<rparr>)
     < calculate_enhanced_confidence_score t sa
   \<longleftrightarrow> filler_word_count sa \<le> 6
       \<and> calculate_enhanced_confidence_score t
           (sa\<lparr>filler_word_count := filler_word_count sa + 1\<rparr>) < 100
       \<and> 30 < calculate_enhanced_confidence_score t sa"
  unfolding calculate_enhanced_confidence_score_def Let_def filler_word_count_update
  by (rule confidence_filler_step)+

text \<open>
  Claim C5 (as the specification states it, refuted). For the transcript
  \<open>um um um um um um um um\<close> the derived feature set has 8 filler words. Raising its
  filler word count to 9, every other feature and the transcript unchanged, leaves the
  clarity score at 61 and the confidence score at 35: neither decreases, and the
  confidence score is above its floor of 30. Both penalties are capped (at 15 for clarity,
  at 20 for confidence) and the caps are reached at 8 and at 7 filler words.
\<close>

theorem filler_increase_not_strict:
  "let t = ''um um um um um um um um'';
       words = split t;
       word_count = int (length words);
       avg = avg_words_per_sentence_of word_count (sentence_count_of t);
       sa = analyze_speech_patterns t words word_count;
       sa' = sa\<lparr>filler_word_count := filler_word_count sa + 1\<rparr>
   in filler_word_count sa = 8 \<and> filler_word_count sa' = 9
      \<and> calculate_enhanced_clarity_score t word_count avg sa = 61
      \<and> calculate_enhanced_clarity_score t word_count avg sa' = 61
      \<and> calculate_enhanced_confidence_score t sa = 35
      \<and> calculate_enhanced_confidence_score t sa' = 35
      \<and> \<not> calculate_enhanced_clarity_score t word_count avg sa'
            < calculate_enhanced_clarity_score t word_count avg sa
      \<and> \<not> calculate_enhanced_confidence_score t sa' < calculate_enhanced_confidence_score t sa"
proof -
  let ?t = "''um um um um um um um um''"
  let ?sa = "analyze_speech_patterns ?t (split ?t) 8"
  have wc: "int (length (split ?t)) = 8" by code_simp
  have sc: "sentence_count_of ?t = 0" by code_simp
  have f: "sum_list (map (\<lambda>filler. int (count (lower ?t) filler)) filler_words) = 8"
    by code_simp
  have ne: "sentences_of ?t \<noteq> []" by code_simp
  have n: "int (length (sentences_of ?t)) = 1" by code_simp
  have c: "int (length (filter (\<lambda>s. 15 < length (split s)) (sentences_of ?t))) = 0"
    by code_simp
  have s: "int (length (filter (\<lambda>s. length (split s) < 5) (sentences_of ?t))) = 0"
    by code_simp
  have fo: "int (length (filter (\<lambda>word. lower word \<in> set formal_words) (split ?t))) = 0"
    by code_simp
  have hq: "CHR ''?'' \<notin> set ?t" and he: "CHR ''!'' \<notin> set ?t" by code_simp+
  have i_cl: "indicator_sum 4 [''clear'', ''understand'', ''explain'', ''simple'', ''direct'',
              ''obvious'', ''apparent''] ?t = 0"
    by code_simp
  have i_st: "indicator_sum 6 [''believe'', ''confident'', ''excited'', ''passionate'', ''sure'',
              ''certain'', ''definitely'', ''absolutely''] ?t = 0"
    by code_simp
  have i_mo: "indicator_sum 3 [''think'', ''feel'', ''hope'', ''suggest'', ''recommend'',
              ''consider''] ?t = 0"
    by code_simp
  have i_le: "indicator_sum 5 [''lead'', ''guide'', ''direct'', ''manage'', ''organize'', ''plan'',
              ''decide''] ?t = 0"
    by code_simp
  have i_un: "indicator_sum 3 [''maybe'', ''perhaps'', ''possibly'', ''might'', ''could'',
              ''should'', ''would''] ?t = 0"
    by code_simp
  have i_ar: "indicator_sum 4 [''articulate'', ''express'', ''communicate'', ''convey'',
              ''describe'', ''explain'', ''elaborate'', ''detail''] ?t = 0"
    by code_simp
  have i2: "calculate_enhanced_confidence_score ?t sa =
              min 100 (max 30 (55 - min 20 (filler_word_count sa * 3)
                + min 10 (formal_language_count sa * 3)))" for sa
    unfolding calculate_enhanced_confidence_score_def Let_def i_st i_mo i_le i_un by simp
  have fw: "filler_word_count ?sa = 8" unfolding speech_analysis_fields f ..
  have fl: "formal_language_count ?sa = 0" unfolding speech_analysis_fields fo ..
  have q: "quality_rating ?sa = 7475975381435023 / 18014398509481984"
    unfolding quality_rating_eq speech_analysis_fields f n c s
    by (simp add: ne float_simps)
  have avg: "avg_words_per_sentence_of 8 0 = 8"
    by (simp add: avg_words_per_sentence_of_def float_simps)
  have cl: "calculate_enhanced_clarity_score ?t 8 8 sa = 61"
    if "quality_rating sa = 7475975381435023 / 18014398509481984"
      and "filler_word_count sa = 8 \<or> filler_word_count sa = 9" for sa
    unfolding calculate_enhanced_clarity_score_def Let_def i_cl that(1)
    using that(2) by (auto simp add: float_simps)
  have co: "calculate_enhanced_confidence_score ?t sa = 35"
    if "formal_language_count sa = 0"
      and "filler_word_count sa = 8 \<or> filler_word_count sa = 9" for sa
    unfolding i2 that(1) using that(2) by auto
  let ?sa' = "?sa\<lparr>filler_word_count := filler_word_count ?sa + 1\<rparr>"
  have fw': "filler_word_count ?sa' = 9" unfolding filler_word_count_update fw by simp
  have q': "quality_rating ?sa' = 7475975381435023 / 18014398509481984"
    unfolding filler_word_count_update by (rule q)
  have fl': "formal_language_count ?sa' = 0" unfolding filler_word_count_update by (rule fl)
  have r1: "calculate_enhanced_clarity_score ?t 8 8 ?sa = 61" by (rule cl [OF q disjI1 [OF fw]])
  have r2: "calculate_enhanced_clarity_score ?t 8 8 ?sa' = 61" by (rule cl [OF q' disjI2 [OF fw']])
  have r3: "calculate_enhanced_confidence_score ?t ?sa = 35" by (rule co [OF fl disjI1 [OF fw]])
  have r4: "calculate_enhanced_confidence_score ?t ?sa' = 35" by (rule co [OF fl' disjI2 [OF fw']])
  show ?thesis
    unfolding Let_def wc sc avg r1 r2 r3 r4 fw'
    by (intro conjI fw refl) simp_all
qed

text \<open>
  Claim C5 (amended). For every transcript and every feature set, raising the filler word
  count by one, everything else unchanged, never raises the pre-jitter clarity score nor
  the pre-jitter confidence score. The clarity score strictly decreases exactly when the
  filler word count was at most 7 and the new score is below the upper clamp of 100; the
  confidence score strictly decreases exactly when the filler word count was at most 6,
  the new score is below 100 and the old score was above the floor of 30.
\<close>

theorem filler_increase_monotone:
  "let sa' = sa\<lparr>filler_word_count := filler_word_count sa + 1\<rparr>;
       c = calculate_enhanced_clarity_score t wc avg sa;
       c' = calculate_enhanced_clarity_score t wc avg sa';
       f = calculate_enhanced_confidence_score t sa;
       f' = calculate_enhanced_confidence_score t sa'
   in c' \<le> c \<and> f' \<le> f
      \<and> (c' < c \<longleftrightarrow> filler_word_count sa \<le> 7 \<and> c' < 100)
      \<and> (f' < f \<longleftrightarrow> filler_word_count sa \<le> 6 \<and> f' < 100 \<and> 30 < f)"
  unfolding Let_def
  by (intro conjI clarity_filler_increase confidence_filler_increase)

theorem filler_increase_monotone_witness:
  "let t = ''I like this plan'';
       words = split t;
       word_count = int (length words);
       avg = avg_words_per_sentence_of word_count (sentence_count_of t);
       sa = analyze_speech_patterns t words word_count;
       sa' = sa\<lparr>filler_word_count := filler_word_count sa + 1\<rparr>
   in calculate_enhanced_clarity_score t word_count avg sa'
        < calculate_enhanced_clarity_score t word_count avg sa
      \<and> calculate_enhanced_confidence_score t sa' < calculate_enhanced_confidence_score t sa"
proof -
  let ?t = "''I like this plan''"
  let ?sa = "analyze_speech_patterns ?t (split ?t) 4"
  have wc: "int (length (split ?t)) = 4" by code_simp
  have sc: "sentence_count_of ?t = 0" by code_simp
  have f: "sum_list (map (\<lambda>filler. int (count (lower ?t) filler)) filler_words) = 1"
    by code_simp
  have ne: "sentences_of ?t \<noteq> []" by code_simp
  have n: "int (length (sentences_of ?t)) = 1" by code_simp
  have c: "int (length (filter (\<lambda>s. 15 < length (split s)) (sentences_of ?t))) = 0"
    by code_simp
  have s: "int (length (filter (\<lambda>s. length (split s) < 5) (sentences_of ?t))) = 1"
    by code_simp
  have fo: "int (length (filter (\<lambda>word. lower word \<in> set formal_words) (split ?t))) = 0"
    by code_simp
  have hq: "CHR ''?'' \<notin> set ?t" and he: "CHR ''!'' \<notin> set ?t" by code_simp+
  have i_cl: "indicator_sum 4 [''clear'', ''understand'', ''explain'', ''simple'', ''direct'',
              ''obvious'', ''apparent''] ?t = 0"
    by code_simp
  have i_st: "indicator_sum 6 [''believe'', ''confident'', ''excited'', ''passionate'', ''sure'',
              ''certain'', ''definitely'', ''absolutely''] ?t = 0"
    by code_simp
  have i_mo: "indicator_sum 3 [''think'', ''feel'', ''hope'', ''suggest'', ''recommend'',
              ''consider''] ?t = 0"
    by code_simp
  have i_le: "indicator_sum 5 [''lead'', ''guide'', ''direct'', ''manage'', ''organize'', ''plan'',
              ''decide''] ?t = 5"
    by code_simp
  have i_un: "indicator_sum 3 [''maybe'', ''perhaps'', ''possibly'', ''might'', ''could'',
              ''should'', ''would''] ?t = 0"
    by code_simp
  have i_ar: "indicator_sum 4 [''articulate'', ''express'', ''communicate'', ''convey'',
              ''describe'', ''explain'', ''elaborate'', ''detail''] ?t = 0"
    by code_simp
  have i2: "calculate_enhanced_confidence_score ?t sa =
              min 100 (max 30 (60 - min 20 (filler_word_count sa * 3)
                + min 10 (formal_language_count sa * 3)))" for sa
    unfolding calculate_enhanced_confidence_score_def Let_def i_st i_mo i_le i_un by simp
  have fw: "filler_word_count ?sa = 1" unfolding speech_analysis_fields f ..
  have fl: "formal_language_count ?sa = 0" unfolding speech_analysis_fields fo ..
  have q: "quality_rating ?sa = 2206763817411543 / 9007199254740992"
    unfolding quality_rating_eq speech_analysis_fields f n c s
    by (simp add: ne float_simps)
  have avg: "avg_words_per_sentence_of 4 0 = 4"
    by (simp add: avg_words_per_sentence_of_def float_simps)
  let ?sa' = "?sa\<lparr>filler_word_count := filler_word_count ?sa + 1\<rparr>"
  have fw': "filler_word_count ?sa' = 2" unfolding filler_word_count_update fw by simp
  have q': "quality_rating ?sa' = 2206763817411543 / 9007199254740992"
    unfolding filler_word_count_update by (rule q)
  have fl': "formal_language_count ?sa' = 0" unfolding filler_word_count_update by (rule fl)
  have a: "filler_word_count ?sa \<le> 7" and c6: "filler_word_count ?sa \<le> 6"
    unfolding fw by simp_all
  have b: "calculate_enhanced_clarity_score ?t 4 4 ?sa' < 100"
    unfolding calculate_enhanced_clarity_score_def Let_def i_cl q' fw'
    by (simp add: float_simps)
  have d: "calculate_enhanced_confidence_score ?t ?sa' < 100"
    unfolding i2 fw' fl' by simp
  have e: "30 < calculate_enhanced_confidence_score ?t ?sa"
    unfolding i2 fw fl by simp
  show ?thesis
    using filler_increase_monotone [where sa = ?sa and t = ?t and wc = 4 and avg = 4]
      a b c6 d e
    unfolding Let_def wc sc avg by blast
qed

subsection \<open>The feature set\<close>

lemma re_split_nonempty: "re_split t \<noteq> []"
  by (induction t rule: re_split.induct) (auto split: list.splits)

lemma sentence_count_nonneg: "0 \<le> sentence_count_of t"
proof -
  have "0 < length (re_split t)" using re_split_nonempty [of t] by simp
  then show ?thesis by (simp add: sentence_count_of_def)
qed

lemma length_unique_words_le: "length (unique_words ws) \<le> length ws"
proof -
  have "length (remdups (map f ws)) \<le> length ws" for f :: "string \<Rightarrow> string"
    using length_remdups_leq [of "map f ws"] by simp
  then show ?thesis by (simp add: unique_words_def)
qed

lemma vocabulary_diversity_bounds:
  "0 \<le> vocabulary_diversity_of ws" "vocabulary_diversity_of ws \<le> 1"
proof -
  have l: "int (length (unique_words ws)) \<le> int (length ws)"
    using length_unique_words_le [of ws] by simp
  have n: "0 \<le> int (length (unique_words ws))" by simp
  show "0 \<le> vocabulary_diversity_of ws"
    unfolding vocabulary_diversity_of_def using truediv_unit(1) [OF n l] by simp
  show "vocabulary_diversity_of ws \<le> 1"
    unfolding vocabulary_diversity_of_def using truediv_unit(2) [OF n l] by simp
qed

lemma py_round_unit:
  assumes "0 \<le> x" and "x \<le> 1"
  shows "0 \<le> py_round x 2" and "py_round x 2 \<le> 1"
proof -
  have lo: "of_int 0 \<le> x * 10 ^ 2" using assms(1) by simp
  have hi: "x * 10 ^ 2 \<le> of_int 100" using assms(2) by simp
  have a: "0 \<le> round_half_even (x * 10 ^ 2)" by (rule round_half_even_bounds(1) [OF lo hi])
  have b: "round_half_even (x * 10 ^ 2) \<le> 100" by (rule round_half_even_bounds(2) [OF lo hi])
  have n: "(0::rat) \<le> of_int (round_half_even (x * 10 ^ 2)) / 10 ^ 2" using a by simp
  have "(of_int (round_half_even (x * 10 ^ 2)) :: rat) \<le> of_int 100"
    using b by (simp only: of_int_le_iff)
  then have u: "(of_int (round_half_even (x * 10 ^ 2)) :: rat) / 10 ^ 2 \<le> of_nat 1" by simp
  show "0 \<le> py_round x 2" unfolding py_round_def by (rule double_nonneg [OF n])
  have "py_round x 2 \<le> of_nat 1" unfolding py_round_def by (rule double_le_nat [OF n u]) simp
  then show "py_round x 2 \<le> 1" by simp
qed

text \<open>
  Claim C9. For every transcript, the features the analyser computes from it satisfy:
  vocabulary diversity (also after rounding to two decimals, as reported), complexity
  score, flow score and the speech quality rating each lie between 0 and 1; the quality
  rating is the mean of its four components (their sum, added from the left, divided by
  4), and each component lies between 0 and 1; word count, sentence count, filler word
  count and formal language count, and the numbers of sentences, of complex sentences and
  of short sentences (natural numbers in the model), are not negative. All these numbers
  are the doubles the program computes.
\<close>

theorem feature_set_invariant:
  "let words = split t;
       word_count = int (length words);
       sentence_count = sentence_count_of t;
       vocabulary_diversity = vocabulary_diversity_of words;
       sa = analyze_speech_patterns t words word_count;
       filler_component = fsub 1 (min (truediv (filler_word_count sa) 10) (1 / 2));
       complexity_component = min (complexity_score sa) 1;
       length_component = min (truediv word_count 50) 1
   in (0 \<le> vocabulary_diversity \<and> vocabulary_diversity \<le> 1)
      \<and> (0 \<le> py_round vocabulary_diversity 2 \<and> py_round vocabulary_diversity 2 \<le> 1)
      \<and> (0 \<le> complexity_score sa \<and> complexity_score sa \<le> 1)
      \<and> (0 \<le> flow_score sa \<and> flow_score sa \<le> 1)
      \<and> (0 \<le> quality_rating sa \<and> quality_rating sa \<le> 1)
      \<and> quality_rating sa =
          fdiv (fsum [filler_component, complexity_component, flow_score sa, length_component]) 4
      \<and> (0 \<le> filler_component \<and> filler_component \<le> 1)
      \<and> (0 \<le> complexity_component \<and> complexity_component \<le> 1)
      \<and> (0 \<le> length_component \<and> length_component \<le> 1)
      \<and> 0 \<le> word_count \<and> 0 \<le> sentence_count
      \<and> 0 \<le> filler_word_count sa \<and> 0 \<le> formal_language_count sa"
proof -
  have wc: "0 \<le> int (length (split t))" by simp
  show ?thesis
    unfolding Let_def
    by (intro conjI vocabulary_diversity_bounds py_round_unit complexity_score_bounds
        flow_score_bounds quality_rating_bounds [OF wc] quality_rating_eq wc
        quality_components_unit [OF wc]
        sentence_count_nonneg filler_word_count_nonneg formal_language_count_nonneg)
qed

theorem feature_set_invariant_witness:
  "let t = ''Um, I think this is clear. However, I could explain it better!'';
       words = split t;
       word_count = int (length words);
       sa = analyze_speech_patterns t words word_count
   in word_count = 12 \<and> sentence_count_of t = 2
      \<and> vocabulary_diversity_of words = truediv 11 12
      \<and> filler_word_count sa = 1 \<and> formal_language_count sa = 0
      \<and> 0 \<le> quality_rating sa \<and> quality_rating sa \<le> 1"
proof -
  let ?t = "''Um, I think this is clear. However, I could explain it better!''"
  have a: "int (length (split ?t)) = 12" by code_simp
  have b: "sentence_count_of ?t = 2" by code_simp
  have u: "int (length (unique_words (split ?t))) = 11" by code_simp
  have ne: "split ?t \<noteq> []" by code_simp
  have c: "vocabulary_diversity_of (split ?t) = truediv 11 12"
    unfolding vocabulary_diversity_of_def u a using ne by simp
  have d: "filler_word_count (analyze_speech_patterns ?t (split ?t) (int (length (split ?t)))) = 1"
    unfolding speech_analysis_fields by code_simp
  have e: "formal_language_count (analyze_speech_patterns ?t (split ?t) (int (length (split ?t)))) = 0"
    unfolding speech_analysis_fields by code_simp
  show ?thesis
    using feature_set_invariant [of ?t] a b c d e
    unfolding Let_def by blast
qed

subsection \<open>Vocabulary diversity\<close>

lemma strip_chars_both_ends:
  "strip_chars chars s = rstrip_chars chars (dropWhile (\<lambda>c. c \<in> set chars) s)"
  by (simp add: strip_chars_def strip_with_def rstrip_chars_def)

lemma two_thirds: "truediv 2 3 = 6004799503160661 / 9007199254740992" "truediv 3 3 = 1"
  by (simp_all add: float_simps)

text \<open>
  Claim C8 (as the specification states it, refuted). The transcript
  \<open>"go" and go\<close> has three words. The analyser strips the characters \<open>.,!?;:"\<close> from
  both ends of each lowercased word, which leaves the two forms \<open>go\<close> and \<open>and\<close> and a
  vocabulary diversity of 2/3 (as a double); stripping trailing characters only would
  leave three forms and a vocabulary diversity of 1.
\<close>

theorem vocabulary_diversity_not_trailing_only:
  "split ''\"go\" and go'' = [''\"go\"'', ''and'', ''go'']
   \<and> unique_words (split ''\"go\" and go'') = [''and'', ''go'']
   \<and> vocabulary_diversity_of (split ''\"go\" and go'') = truediv 2 3
   \<and> truediv 2 3 = 6004799503160661 / 9007199254740992
   \<and> vocabulary_diversity_spec (split ''\"go\" and go'') = 1
   \<and> vocabulary_diversity_of (split ''\"go\" and go'')
       \<noteq> vocabulary_diversity_spec (split ''\"go\" and go'')"
proof -
  have s: "split ''\"go\" and go'' = [''\"go\"'', ''and'', ''go'']" by code_simp
  have u: "unique_words [''\"go\"'', ''and'', ''go''] = [''and'', ''go'']" by code_simp
  have r: "remdups (map (\<lambda>word. rstrip_chars ''.,!?;:\"'' (lower word)) [''\"go\"'', ''and'', ''go''])
             = [''\"go'', ''and'', ''go'']"
    by code_simp
  have a: "vocabulary_diversity_of [''\"go\"'', ''and'', ''go''] = truediv 2 3"
    unfolding vocabulary_diversity_of_def u by simp
  have b: "vocabulary_diversity_spec [''\"go\"'', ''and'', ''go''] = 1"
    unfolding vocabulary_diversity_spec_def r by (simp add: two_thirds)
  have c: "truediv 2 3 \<noteq> 1" unfolding two_thirds by simp
  show ?thesis
    unfolding s u a b
    by (intro conjI refl two_thirds c)
qed

text \<open>
  Claim C8 (amended). For every transcript, vocabulary diversity is the number of
  distinct forms obtained by lowercasing each whitespace-separated word and stripping the
  characters \<open>.,!?;:"\<close> from both ends of it (the leading ones, then the trailing ones),
  divided by the word count (a true division of two integers, which gives the nearest
  double); it is 0 when there is no word.
\<close>

theorem vocabulary_diversity_both_ends:
  "vocabulary_diversity_of (split t) =
     (if int (length (split t)) = 0 then 0
      else truediv
             (int (card ((\<lambda>word. rstrip_chars ''.,!?;:\"''
                            (dropWhile (\<lambda>c. c \<in> set ''.,!?;:\"'') (lower word)))
                          ` set (split t))))
             (int (length (split t))))"
proof -
  have "length (unique_words ws) =
          card ((\<lambda>word. rstrip_chars ''.,!?;:\"''
                   (dropWhile (\<lambda>c. c \<in> set ''.,!?;:\"'') (lower word))) ` set ws)" for ws
    unfolding unique_words_def strip_chars_both_ends length_remdups_card_conv set_map ..
  then show ?thesis by (simp add: vocabulary_diversity_of_def)
qed

theorem vocabulary_diversity_both_ends_witness:
  "vocabulary_diversity_of (split ''Go, go. Stop!'') = truediv 2 3
   \<and> card ((\<lambda>word. rstrip_chars ''.,!?;:\"''
                (dropWhile (\<lambda>c. c \<in> set ''.,!?;:\"'') (lower word)))
              ` set (split ''Go, go. Stop!'')) = 2"
proof -
  have u: "int (length (unique_words (split ''Go, go. Stop!''))) = 2" by code_simp
  have b: "int (length (split ''Go, go. Stop!'')) = 3" by code_simp
  have ne: "split ''Go, go. Stop!'' \<noteq> []" by code_simp
  have a: "vocabulary_diversity_of (split ''Go, go. Stop!'') = truediv 2 3"
    unfolding vocabulary_diversity_of_def u b using ne by simp
  have c: "card ((\<lambda>word. rstrip_chars ''.,!?;:\"''
                (dropWhile (\<lambda>c. c \<in> set ''.,!?;:\"'') (lower word)))
              ` set (split ''Go, go. Stop!'')) = 2"
  proof -
    have "length (unique_words (split ''Go, go. Stop!'')) =
          card ((\<lambda>word. rstrip_chars ''.,!?;:\"''
                   (dropWhile (\<lambda>c. c \<in> set ''.,!?;:\"'') (lower word)))
                 ` set (split ''Go, go. Stop!''))"
      unfolding unique_words_def strip_chars_both_ends length_remdups_card_conv set_map ..
    then show ?thesis using u by simp
  qed
  show ?thesis
    using vocabulary_diversity_both_ends [of "''Go, go. Stop!''"] a c
    by blast
qed

subsection \<open>The analyser\<close>

lemma analyze_fallback:
  assumes "t = [] \<or> length (strip t) < 10"
  shows "analyze_communication_skills t g =
           generate_random_evaluation ''No speech detected or transcription too short'' g"
  unfolding analyze_communication_skills_def by (rule if_P [OF assms])

lemma analyze_normal:
  assumes n: "\<not> (t = [] \<or> length (strip t) < 10)"
  shows "ar_clarity (fst (analyze_communication_skills t g)) =
           fst (add_natural_variation
                 (calculate_enhanced_clarity_score t (int (length (split t)))
                    (avg_words_per_sentence_of (int (length (split t))) (sentence_count_of t))
                    (analyze_speech_patterns t (split t) (int (length (split t)))))
                 (int (length (split t))) g)"
    and "ar_confidence (fst (analyze_communication_skills t g)) =
           fst (add_natural_variation
                 (calculate_enhanced_confidence_score t
                    (analyze_speech_patterns t (split t) (int (length (split t)))))
                 (int (length (split t))) (advance 1 g))"
    and "ar_articulation (fst (analyze_communication_skills t g)) =
           fst (add_natural_variation
                 (calculate_enhanced_articulation_score t (int (length (split t)))
                    (vocabulary_diversity_of (split t))
                    (analyze_speech_patterns t (split t) (int (length (split t)))))
                 (int (length (split t))) (advance 2 g))"
    and "ar_feedback (fst (analyze_communication_skills t g)) =
           generate_enhanced_feedback
             (ar_clarity (fst (analyze_communication_skills t g)))
             (ar_confidence (fst (analyze_communication_skills t g)))
             (ar_articulation (fst (analyze_communication_skills t g)))
             t (analyze_speech_patterns t (split t) (int (length (split t))))"
    and "da_word_count (ar_detailed_analysis (fst (analyze_communication_skills t g))) =
           int (length (split t))"
    and "da_sentence_count (ar_detailed_analysis (fst (analyze_communication_skills t g))) =
           sentence_count_of t"
    and "da_filler_words (ar_detailed_analysis (fst (analyze_communication_skills t g))) =
           filler_word_count (analyze_speech_patterns t (split t) (int (length (split t))))"
  unfolding analyze_communication_skills_def if_not_P [OF n] Let_def case_prod_beta
    snd_add_natural_variation advance_advance fst_conv analysis_results.simps
    detailed_analysis.simps
  by (simp_all add: Suc_numerals)

lemma analyze_scores_range:
  "40 \<le> ar_clarity (fst (analyze_communication_skills t g))"
  "ar_clarity (fst (analyze_communication_skills t g)) \<le> 100"
  "40 \<le> ar_confidence (fst (analyze_communication_skills t g))"
  "ar_confidence (fst (analyze_communication_skills t g)) \<le> 100"
  "40 \<le> ar_articulation (fst (analyze_communication_skills t g))"
  "ar_articulation (fst (analyze_communication_skills t g)) \<le> 100"
proof -
  have "(40 \<le> ar_clarity (fst (analyze_communication_skills t g))
         \<and> ar_clarity (fst (analyze_communication_skills t g)) \<le> 100)
        \<and> (40 \<le> ar_confidence (fst (analyze_communication_skills t g))
         \<and> ar_confidence (fst (analyze_communication_skills t g)) \<le> 100)
        \<and> (40 \<le> ar_articulation (fst (analyze_communication_skills t g))
         \<and> ar_articulation (fst (analyze_communication_skills t g)) \<le> 100)"
  proof (cases "t = [] \<or> length (strip t) < 10")
    case True
    show ?thesis
      unfolding analyze_fallback [OF True] fallback_scores
      using fallback_sum_range [of g "advance 3 g"]
        fallback_sum_range [of "advance 1 g" "advance 4 g"]
        fallback_sum_range [of "advance 2 g" "advance 5 g"]
      by linarith
  next
    case False
    show ?thesis
      unfolding analyze_normal [OF False]
      by (intro conjI add_natural_variation_range)
  qed
  then show "40 \<le> ar_clarity (fst (analyze_communication_skills t g))"
    and "ar_clarity (fst (analyze_communication_skills t g)) \<le> 100"
    and "40 \<le> ar_confidence (fst (analyze_communication_skills t g))"
    and "ar_confidence (fst (analyze_communication_skills t g)) \<le> 100"
    and "40 \<le> ar_articulation (fst (analyze_communication_skills t g))"
    and "ar_articulation (fst (analyze_communication_skills t g)) \<le> 100"
    by blast+
qed

lemma fallback_feedback_prefix:
  "prefix reason (ar_feedback (fst (generate_random_evaluation reason g)))"
  unfolding generate_random_evaluation_def Let_def case_prod_beta fst_conv
    analysis_results.simps
  by (rule prefixI) (rule refl)

subsection \<open>Feedback and Suggestion Composer\<close>

lemma sublist_join: "x \<in> set ps \<Longrightarrow> sublist x (join sep ps)"
proof (induction sep ps rule: join.induct)
  case (1 sep)
  then show ?case by simp
next
  case (2 sep p)
  then show ?case by simp
next
  case (3 sep p q ps)
  show ?case
  proof (cases "x = p")
    case True
    then show ?thesis by (simp add: sublist_append_rightI)
  next
    case False
    then have "x \<in> set (q # ps)" using 3(2) by simp
    then have "sublist x (join sep (q # ps))" by (rule 3(1))
    then obtain us vs where "join sep (q # ps) = us @ x @ vs" by (auto simp: sublist_def)
    then have "join sep (p # q # ps) = (p @ sep @ us) @ x @ vs" by simp
    then show ?thesis unfolding sublist_def by blast
  qed
qed

lemma feedback_has_band_sentences:
  "sublist (overall_sentence (truediv (c + f + a) 3)) (generate_enhanced_feedback c f a t sa)"
  "sublist (clarity_sentence c) (generate_enhanced_feedback c f a t sa)"
  "sublist (confidence_sentence f) (generate_enhanced_feedback c f a t sa)"
  "sublist (articulation_sentence a) (generate_enhanced_feedback c f a t sa)"
  unfolding generate_enhanced_feedback_def
  by (rule sublist_join, simp add: feedback_parts_def Let_def)+

lemma example_transcript_is_long:
  "\<not> (''Hello my name is John and I like programming. I am confident and excited about this opportunity.'' = []
      \<or> length (strip ''Hello my name is John and I like programming. I am confident and excited about this opportunity.'') < 10)"
  by code_simp

lemma example_transcript_features:
  "int (length (split ''Hello my name is John and I like programming. I am confident and excited about this opportunity.'')) = 17"
  "sentence_count_of ''Hello my name is John and I like programming. I am confident and excited about this opportunity.'' = 2"
  "filler_word_count (analyze_speech_patterns
      ''Hello my name is John and I like programming. I am confident and excited about this opportunity.''
      (split ''Hello my name is John and I like programming. I am confident and excited about this opportunity.'')
      (int (length (split ''Hello my name is John and I like programming. I am confident and excited about this opportunity.'')))) = 1"
  "map (\<lambda>filler. count (lower ''Hello my name is John and I like programming. I am confident and excited about this opportunity.'') filler)
     filler_words = [0, 0, 1, 0, 0, 0, 0, 0, 0]"
proof -
  show "int (length (split ''Hello my name is John and I like programming. I am confident and excited about this opportunity.'')) = 17"
    by code_simp
  show "sentence_count_of ''Hello my name is John and I like programming. I am confident and excited about this opportunity.'' = 2"
    by code_simp
  show "filler_word_count (analyze_speech_patterns
      ''Hello my name is John and I like programming. I am confident and excited about this opportunity.''
      (split ''Hello my name is John and I like programming. I am confident and excited about this opportunity.'')
      (int (length (split ''Hello my name is John and I like programming. I am confident and excited about this opportunity.'')))) = 1"
    unfolding speech_analysis_fields by code_simp
  show "map (\<lambda>filler. count (lower ''Hello my name is John and I like programming. I am confident and excited about this opportunity.'') filler)
     filler_words = [0, 0, 1, 0, 0, 0, 0, 0, 0]"
    by code_simp
qed

text \<open>
  Claim C7 (as the specification states it, refuted). The example transcript has 17
  whitespace-separated words, not 16, and 17 is the word count the analyser reports for it,
  whatever the random source.
\<close>

theorem example_transcript_word_count:
  "int (length (split ''Hello my name is John and I like programming. I am confident and excited about this opportunity.'')) = 17
   \<and> int (length (split ''Hello my name is John and I like programming. I am confident and excited about this opportunity.'')) \<noteq> 16
   \<and> (\<forall>g. da_word_count (ar_detailed_analysis (fst (analyze_communication_skills
          ''Hello my name is John and I like programming. I am confident and excited about this opportunity.'' g))) = 17)"
  unfolding analyze_normal [OF example_transcript_is_long] example_transcript_features
  by simp

text \<open>
  Claim C7 (amended). For the example transcript the feature extractor yields a word count
  of 17, a sentence count of 2 and a filler word count of 1 (the single hit is \<open>like\<close>,
  the third filler of the list), and the analyser reports these; for every state of the
  random source, the feedback text contains the overall sentence of the band of the mean
  score (the sum of the three scores divided by 3, as a double), the clarity sentence of the band of the clarity score, the confidence sentence of
  the band of the confidence score and the articulation sentence of the band of the
  articulation score.
\<close>

theorem example_transcript_analysis:
  "let t = ''Hello my name is John and I like programming. I am confident and excited about this opportunity.'';
       words = split t;
       word_count = int (length words);
       sa = analyze_speech_patterns t words word_count;
       r = fst (analyze_communication_skills t g)
   in word_count = 17 \<and> sentence_count_of t = 2 \<and> filler_word_count sa = 1
      \<and> map (\<lambda>filler. count (lower t) filler) filler_words = [0, 0, 1, 0, 0, 0, 0, 0, 0]
      \<and> da_word_count (ar_detailed_analysis r) = 17
      \<and> da_sentence_count (ar_detailed_analysis r) = 2
      \<and> da_filler_words (ar_detailed_analysis r) = 1
      \<and> sublist (overall_sentence (truediv (ar_clarity r + ar_confidence r + ar_articulation r) 3))
           (ar_feedback r)
      \<and> sublist (clarity_sentence (ar_clarity r)) (ar_feedback r)
      \<and> sublist (confidence_sentence (ar_confidence r)) (ar_feedback r)
      \<and> sublist (articulation_sentence (ar_articulation r)) (ar_feedback r)"
  unfolding Let_def
proof (intro conjI)
  let ?t = "''Hello my name is John and I like programming. I am confident and excited about this opportunity.''"
  let ?r = "fst (analyze_communication_skills ?t g)"
  note n = analyze_normal [OF example_transcript_is_long]
  show "int (length (split ?t)) = 17" by (rule example_transcript_features)
  show "sentence_count_of ?t = 2" by (rule example_transcript_features)
  show "filler_word_count (analyze_speech_patterns ?t (split ?t) (int (length (split ?t)))) = 1"
    by (rule example_transcript_features)
  show "map (\<lambda>filler. count (lower ?t) filler) filler_words = [0, 0, 1, 0, 0, 0, 0, 0, 0]"
    by (rule example_transcript_features)
  show "da_word_count (ar_detailed_analysis ?r) = 17"
    unfolding n by (rule example_transcript_features)
  show "da_sentence_count (ar_detailed_analysis ?r) = 2"
    unfolding n by (rule example_transcript_features)
  show "da_filler_words (ar_detailed_analysis ?r) = 1"
    unfolding n by (rule example_transcript_features)
  show "sublist (overall_sentence (truediv (ar_clarity ?r + ar_confidence ?r + ar_articulation ?r) 3))
          (ar_feedback ?r)"
    unfolding n(4) by (rule feedback_has_band_sentences)
  show "sublist (clarity_sentence (ar_clarity ?r)) (ar_feedback ?r)"
    unfolding n(4) by (rule feedback_has_band_sentences)
  show "sublist (confidence_sentence (ar_confidence ?r)) (ar_feedback ?r)"
    unfolding n(4) by (rule feedback_has_band_sentences)
  show "sublist (articulation_sentence (ar_articulation ?r)) (ar_feedback ?r)"
    unfolding n(4) by (rule feedback_has_band_sentences)
qed

theorem example_transcript_analysis_witness:
  "let r = fst (analyze_communication_skills 
          ''Hello my name is John and I like programming. I am confident and excited about this opportunity.''
          (\<lambda>i. 7 * i + 3))
   in ar_clarity r = 78 \<and> ar_confidence r = 69 \<and> ar_articulation r = 95
      \<and> sublist ''Very good communication skills. You show strong abilities with room for refinement.''
           (ar_feedback r)
      \<and> sublist ''Your speech is generally clear, though some words could be more distinct. Focus on enunciation for better clarity.''
           (ar_feedback r)
      \<and> sublist ''You show moderate confidence in your speech. While you convey your message, adding more assertiveness would strengthen your delivery.''
           (ar_feedback r)
      \<and> sublist ''You articulate your thoughts exceptionally well. Your ideas are well-organized and expressed with precision.''
           (ar_feedback r)"
proof -
  let ?t = "''Hello my name is John and I like programming. I am confident and excited about this opportunity.''"
  let ?g = "\<lambda>i::nat. 7 * i + 3"
  let ?sa = "analyze_speech_patterns ?t (split ?t) 17"
  let ?r = "fst (analyze_communication_skills ?t ?g)"
  have wc: "int (length (split ?t)) = 17" by code_simp
  have sc: "sentence_count_of ?t = 2" by code_simp
  have f: "sum_list (map (\<lambda>filler. int (count (lower ?t) filler)) filler_words) = 1"
    by code_simp
  have ne: "sentences_of ?t \<noteq> []" by code_simp
  have n: "int (length (sentences_of ?t)) = 2" by code_simp
  have c: "int (length (filter (\<lambda>s. 15 < length (split s)) (sentences_of ?t))) = 0"
    by code_simp
  have s: "int (length (filter (\<lambda>s. length (split s) < 5) (sentences_of ?t))) = 0"
    by code_simp
  have fo: "int (length (filter (\<lambda>word. lower word \<in> set formal_words) (split ?t))) = 0"
    by code_simp
  have hq: "CHR ''?'' \<notin> set ?t" and he: "CHR ''!'' \<notin> set ?t" by code_simp+
  have i_cl: "indicator_sum 4 [''clear'', ''understand'', ''explain'', ''simple'', ''direct'',
              ''obvious'', ''apparent''] ?t = 0"
    by code_simp
  have i_st: "indicator_sum 6 [''believe'', ''confident'', ''excited'', ''passionate'', ''sure'',
              ''certain'', ''definitely'', ''absolutely''] ?t = 12"
    by code_simp
  have i_mo: "indicator_sum 3 [''think'', ''feel'', ''hope'', ''suggest'', ''recommend'',
              ''consider''] ?t = 0"
    by code_simp
  have i_le: "indicator_sum 5 [''lead'', ''guide'', ''direct'', ''manage'', ''organize'', ''plan'',
              ''decide''] ?t = 0"
    by code_simp
  have i_un: "indicator_sum 3 [''maybe'', ''perhaps'', ''possibly'', ''might'', ''could'',
              ''should'', ''would''] ?t = 0"
    by code_simp
  have i_ar: "indicator_sum 4 [''articulate'', ''express'', ''communicate'', ''convey'',
              ''describe'', ''explain'', ''elaborate'', ''detail''] ?t = 0"
    by code_simp
  have u: "int (length (unique_words (split ?t))) = 15" by code_simp
  have sne: "split ?t \<noteq> []" by code_simp
  have fw: "filler_word_count ?sa = 1" unfolding speech_analysis_fields f ..
  have fl: "formal_language_count ?sa = 0" unfolding speech_analysis_fields fo ..
  have cs: "complexity_score ?sa = 0"
    unfolding speech_analysis_fields c n by (simp add: ne float_simps)
  have fs: "flow_score ?sa = 1"
    unfolding speech_analysis_fields s n by (simp add: ne float_simps)
  have hqf: "has_questions ?sa = False" "has_exclamations ?sa = False"
    unfolding speech_analysis_fields using hq he by simp_all
  have q: "quality_rating ?sa = 5044031582654955 / 9007199254740992"
    unfolding quality_rating_eq speech_analysis_fields f n c s
    by (simp add: ne float_simps)
  have avg: "avg_words_per_sentence_of 17 2 = 17 / 2"
    by (simp add: avg_words_per_sentence_of_def float_simps)
  have vd: "vocabulary_diversity_of (split ?t) = truediv 15 17"
    unfolding vocabulary_diversity_of_def u wc using sne by simp
  have cl: "calculate_enhanced_clarity_score ?t 17 (17 / 2) ?sa = 80"
    unfolding calculate_enhanced_clarity_score_def Let_def i_cl q fw
    by (simp add: float_simps)
  have co: "calculate_enhanced_confidence_score ?t ?sa = 64"
    unfolding calculate_enhanced_confidence_score_def Let_def i_st i_mo i_le i_un fw fl
    by simp
  have ar: "calculate_enhanced_articulation_score ?t 17 (truediv 15 17) ?sa = 94"
    unfolding calculate_enhanced_articulation_score_def Let_def i_ar cs fs hqf
    by (simp add: float_simps)
  note n = analyze_normal [OF example_transcript_is_long]
  have s: "ar_clarity ?r = 78" "ar_confidence ?r = 69" "ar_articulation ?r = 95"
    unfolding n wc sc avg vd cl co ar
    by (simp_all add: add_natural_variation_def randint_def advance_def Let_def)
  have o: "overall_sentence (truediv (78 + 69 + 95) 3) =
             ''Very good communication skills. You show strong abilities with room for refinement.''"
    by (simp add: overall_sentence_def float_simps)
  have c: "clarity_sentence 78 =
             ''Your speech is generally clear, though some words could be more distinct. Focus on enunciation for better clarity.''"
    by code_simp
  have f: "confidence_sentence 69 =
             ''You show moderate confidence in your speech. While you convey your message, adding more assertiveness would strengthen your delivery.''"
    by code_simp
  have a: "articulation_sentence 95 =
             ''You articulate your thoughts exceptionally well. Your ideas are well-organized and expressed with precision.''"
    by code_simp
  show ?thesis
    using example_transcript_analysis [of ?g] s
    unfolding Let_def s o c f a by blast
qed

subsection \<open>The evaluate boundary\<close>

lemma length_strip_le: "length (strip s) \<le> length s"
proof -
  have "length (dropWhile is_space (rev (dropWhile is_space s))) \<le> length (rev (dropWhile is_space s))"
    by (rule length_dropWhile_le)
  also have "\<dots> \<le> length s" by (simp add: length_dropWhile_le)
  finally show ?thesis by (simp add: strip_def strip_with_def)
qed

lemma validated:
  assumes "0 \<le> c" and "c \<le> 100" and "0 \<le> f" and "f \<le> 100" and "0 \<le> a" and "a \<le> 100"
  shows "TranscriptionEvaluationOutput t c f a fb sg an =
           Inr \<lparr> transcription = t, clarity = c, confidence = f, articulation = a,
                 feedback = fb, suggestions = sg, analysis = an \<rparr>"
  unfolding TranscriptionEvaluationOutput_def using assms by (simp only: simp_thms if_True)

lemma evaluate_body_blank:
  assumes "strip input = []"
  shows "evaluate_body analyse input g =
           Inr \<lparr> transcription = ''No text provided for evaluation.'',
                 clarity = 0, confidence = 0, articulation = 0,
                 feedback = ''Please provide some text to evaluate your communication skills.'',
                 suggestions = [Fixed ''Try speaking for at least 3-5 seconds and then click stop recording.''],
                 analysis = ErrorText ''Empty transcription'' \<rparr>"
  unfolding evaluate_body_def Let_def if_P [OF assms]
  by (rule validated) simp_all

lemma evaluate_body_nonblank:
  assumes "strip input \<noteq> []"
  shows "evaluate_body (\<lambda>t g. Inr (analyze_communication_skills t g)) input g =
           Inr \<lparr> transcription = strip input,
                 clarity = ar_clarity (fst (analyze_communication_skills (strip input) g)),
                 confidence = ar_confidence (fst (analyze_communication_skills (strip input) g)),
                 articulation = ar_articulation (fst (analyze_communication_skills (strip input) g)),
                 feedback = ar_feedback (fst (analyze_communication_skills (strip input) g)),
                 suggestions = ar_suggestions (fst (analyze_communication_skills (strip input) g)),
                 analysis = Detailed (ar_detailed_analysis
                   (fst (analyze_communication_skills (strip input) g))) \<rparr>"
proof -
  let ?r = "fst (analyze_communication_skills (strip input) g)"
  note s = analyze_scores_range [of "strip input" g]
  have v: "0 \<le> ar_clarity ?r" "0 \<le> ar_confidence ?r" "0 \<le> ar_articulation ?r"
    using s by linarith+
  show ?thesis
    unfolding evaluate_body_def Let_def if_not_P [OF assms] sum.case case_prod_beta
    by (rule validated [OF v(1) s(2) v(2) s(4) v(3) s(6)])
qed

lemma evaluate_with_ok:
  assumes "evaluate_body analyse input g = Inr out"
  shows "evaluate_text_only_with analyse input g = Inr out"
  unfolding evaluate_text_only_with_def assms sum.case ..

lemma evaluate_with_raised:
  assumes "evaluate_body analyse input g = Inl e"
  shows "evaluate_text_only_with analyse input g =
           Inr \<lparr> transcription = ''Error evaluating text. Please try again.'',
                 clarity = 50, confidence = 50, articulation = 50,
                 feedback = ''There was an error analyzing your text. Please try again.'',
                 suggestions = [Fixed ''Try recording your speech again.''],
                 analysis = ErrorOf e \<rparr>"
  unfolding evaluate_text_only_with_def assms sum.case
  by (rule validated) simp_all

lemma evaluate_with_returns: "\<exists>out. evaluate_text_only_with analyse input g = Inr out"
proof (cases "evaluate_body analyse input g")
  case (Inl e)
  show ?thesis unfolding evaluate_with_raised [OF Inl] by blast
next
  case (Inr out)
  show ?thesis unfolding evaluate_with_ok [OF Inr] by blast
qed

lemma evaluate_text_only_blank:
  assumes "strip input = []"
  shows "evaluate_text_only input g =
           Inr \<lparr> transcription = ''No text provided for evaluation.'',
                 clarity = 0, confidence = 0, articulation = 0,
                 feedback = ''Please provide some text to evaluate your communication skills.'',
                 suggestions = [Fixed ''Try speaking for at least 3-5 seconds and then click stop recording.''],
                 analysis = ErrorText ''Empty transcription'' \<rparr>"
  unfolding evaluate_text_only_def
  by (rule evaluate_with_ok [OF evaluate_body_blank [OF assms]])

lemma evaluate_text_only_nonblank:
  assumes "strip input \<noteq> []"
  shows "evaluate_text_only input g =
           Inr \<lparr> transcription = strip input,
                 clarity = ar_clarity (fst (analyze_communication_skills (strip input) g)),
                 confidence = ar_confidence (fst (analyze_communication_skills (strip input) g)),
                 articulation = ar_articulation (fst (analyze_communication_skills (strip input) g)),
                 feedback = ar_feedback (fst (analyze_communication_skills (strip input) g)),
                 suggestions = ar_suggestions (fst (analyze_communication_skills (strip input) g)),
                 analysis = Detailed (ar_detailed_analysis
                   (fst (analyze_communication_skills (strip input) g))) \<rparr>"
  unfolding evaluate_text_only_def
  by (rule evaluate_with_ok [OF evaluate_body_nonblank [OF assms]])


lemma strip_empty: "strip [] = []"
  by (simp add: strip_def strip_with_def)

lemma short_is_fallback:
  assumes "length (strip t) < 10"
  shows "analyze_communication_skills t g =
           generate_random_evaluation ''No speech detected or transcription too short'' g"
  by (rule analyze_fallback) (rule disjI2 [OF assms])

lemma short_feedback_prefix:
  assumes "length (strip t) < 10"
  shows "prefix ''No speech detected or transcription too short''
           (ar_feedback (fst (analyze_communication_skills t g)))"
  unfolding short_is_fallback [OF assms] by (rule fallback_feedback_prefix)

text \<open>
  Claim C2 (as the specification states it, refuted). For the empty transcript, and every
  state of the random source, \<^verbatim>\<open>evaluate_text_only\<close> returns the fixed record of its own
  guard: the three scores are 0, below 40, and the feedback is the request to provide
  some text, which does not begin with the literal of the Fallback Generator path.
\<close>

theorem empty_transcript_not_fallback:
  "\<forall>g. \<exists>out. evaluate_text_only [] g = Inr out
        \<and> clarity out = 0 \<and> confidence out = 0 \<and> articulation out = 0
        \<and> \<not> 40 \<le> clarity out
        \<and> feedback out = ''Please provide some text to evaluate your communication skills.''
        \<and> \<not> prefix ''No speech detected or transcription too short'' (feedback out)"
proof
  fix g
  let ?out = "\<lparr> transcription = ''No text provided for evaluation.'',
                 clarity = 0, confidence = 0, articulation = 0,
                 feedback = ''Please provide some text to evaluate your communication skills.'',
                 suggestions = [Fixed ''Try speaking for at least 3-5 seconds and then click stop recording.''],
                 analysis = ErrorText ''Empty transcription'' \<rparr>"
  have e: "evaluate_text_only [] g = Inr ?out"
    by (rule evaluate_text_only_blank [OF strip_empty])
  have p: "\<not> prefix ''No speech detected or transcription too short''
               ''Please provide some text to evaluate your communication skills.''"
    by code_simp
  have f: "clarity ?out = 0" "confidence ?out = 0" "articulation ?out = 0"
    "feedback ?out = ''Please provide some text to evaluate your communication skills.''"
    by (simp_all only: evaluation_output.simps)
  have q: "\<not> (40::int) \<le> 0" by simp
  show "\<exists>out. evaluate_text_only [] g = Inr out
        \<and> clarity out = 0 \<and> confidence out = 0 \<and> articulation out = 0
        \<and> \<not> 40 \<le> clarity out
        \<and> feedback out = ''Please provide some text to evaluate your communication skills.''
        \<and> \<not> prefix ''No speech detected or transcription too short'' (feedback out)"
    apply (rule exI [of _ ?out])
    unfolding f
    apply (intro conjI e refl p q)
    done
qed

text \<open>
  Claim C2 (amended). For every transcript whose trimmed length is below 10 characters,
  the empty one included, the analyser returns the result of the Fallback Generator: its
  three scores lie between 40 and 100 and its feedback begins with the literal
  \<open>No speech detected or transcription too short\<close>. \<^verbatim>\<open>evaluate_text_only\<close> returns that
  result when the trimmed input has between 1 and 9 characters. When the trimmed input is
  empty, \<^verbatim>\<open>evaluate_text_only\<close> does not call the analyser: the three scores are 0 and
  the feedback is the request to provide some text.
\<close>

theorem short_transcript_results:
  "(length (strip t) < 10 \<longrightarrow>
      fst (analyze_communication_skills t g) =
        fst (generate_random_evaluation ''No speech detected or transcription too short'' g)
      \<and> 40 \<le> ar_clarity (fst (analyze_communication_skills t g))
      \<and> ar_clarity (fst (analyze_communication_skills t g)) \<le> 100
      \<and> 40 \<le> ar_confidence (fst (analyze_communication_skills t g))
      \<and> ar_confidence (fst (analyze_communication_skills t g)) \<le> 100
      \<and> 40 \<le> ar_articulation (fst (analyze_communication_skills t g))
      \<and> ar_articulation (fst (analyze_communication_skills t g)) \<le> 100
      \<and> prefix ''No speech detected or transcription too short''
           (ar_feedback (fst (analyze_communication_skills t g))))
   \<and> (strip input \<noteq> [] \<and> length (strip input) < 10 \<longrightarrow>
        (\<exists>out. evaluate_text_only input g = Inr out
           \<and> 40 \<le> clarity out \<and> clarity out \<le> 100
           \<and> 40 \<le> confidence out \<and> confidence out \<le> 100
           \<and> 40 \<le> articulation out \<and> articulation out \<le> 100
           \<and> prefix ''No speech detected or transcription too short'' (feedback out)))
   \<and> (strip input = [] \<longrightarrow>
        (\<exists>out. evaluate_text_only input g = Inr out
           \<and> clarity out = 0 \<and> confidence out = 0 \<and> articulation out = 0
           \<and> feedback out = ''Please provide some text to evaluate your communication skills.''))"
proof (intro conjI impI)
  assume h: "length (strip t) < 10"
  show "fst (analyze_communication_skills t g) =
          fst (generate_random_evaluation ''No speech detected or transcription too short'' g)"
    unfolding short_is_fallback [OF h] ..
  show "prefix ''No speech detected or transcription too short''
          (ar_feedback (fst (analyze_communication_skills t g)))"
    by (rule short_feedback_prefix [OF h])
next
  show "40 \<le> ar_clarity (fst (analyze_communication_skills t g))"
    by (rule analyze_scores_range)
  show "ar_clarity (fst (analyze_communication_skills t g)) \<le> 100"
    by (rule analyze_scores_range)
  show "40 \<le> ar_confidence (fst (analyze_communication_skills t g))"
    by (rule analyze_scores_range)
  show "ar_confidence (fst (analyze_communication_skills t g)) \<le> 100"
    by (rule analyze_scores_range)
  show "40 \<le> ar_articulation (fst (analyze_communication_skills t g))"
    by (rule analyze_scores_range)
  show "ar_articulation (fst (analyze_communication_skills t g)) \<le> 100"
    by (rule analyze_scores_range)
next
  assume a: "strip input \<noteq> [] \<and> length (strip input) < 10"
  let ?r = "fst (analyze_communication_skills (strip input) g)"
  let ?out = "\<lparr> transcription = strip input,
                 clarity = ar_clarity ?r, confidence = ar_confidence ?r,
                 articulation = ar_articulation ?r, feedback = ar_feedback ?r,
                 suggestions = ar_suggestions ?r,
                 analysis = Detailed (ar_detailed_analysis ?r) \<rparr>"
  have n: "strip input \<noteq> []" using a by (rule conjunct1)
  have "length (strip (strip input)) \<le> length (strip input)" by (rule length_strip_le)
  then have s: "length (strip (strip input)) < 10" using a by linarith
  have e: "evaluate_text_only input g = Inr ?out" by (rule evaluate_text_only_nonblank [OF n])
  have f: "clarity ?out = ar_clarity ?r" "confidence ?out = ar_confidence ?r"
    "articulation ?out = ar_articulation ?r" "feedback ?out = ar_feedback ?r"
    by (simp_all only: evaluation_output.simps)
  show "\<exists>out. evaluate_text_only input g = Inr out
           \<and> 40 \<le> clarity out \<and> clarity out \<le> 100
           \<and> 40 \<le> confidence out \<and> confidence out \<le> 100
           \<and> 40 \<le> articulation out \<and> articulation out \<le> 100
           \<and> prefix ''No speech detected or transcription too short'' (feedback out)"
    apply (rule exI [of _ ?out])
    unfolding f
    apply (intro conjI e analyze_scores_range short_feedback_prefix [OF s])
    done
next
  assume b: "strip input = []"
  let ?out = "\<lparr> transcription = ''No text provided for evaluation.'',
                 clarity = 0, confidence = 0, articulation = 0,
                 feedback = ''Please provide some text to evaluate your communication skills.'',
                 suggestions = [Fixed ''Try speaking for at least 3-5 seconds and then click stop recording.''],
                 analysis = ErrorText ''Empty transcription'' \<rparr>"
  have e: "evaluate_text_only input g = Inr ?out" by (rule evaluate_text_only_blank [OF b])
  have f: "clarity ?out = 0" "confidence ?out = 0" "articulation ?out = 0"
    "feedback ?out = ''Please provide some text to evaluate your communication skills.''"
    by (simp_all only: evaluation_output.simps)
  show "\<exists>out. evaluate_text_only input g = Inr out
           \<and> clarity out = 0 \<and> confidence out = 0 \<and> articulation out = 0
           \<and> feedback out = ''Please provide some text to evaluate your communication skills.''"
    apply (rule exI [of _ ?out])
    unfolding f
    apply (intro conjI e refl)
    done
qed

theorem short_transcript_results_witness:
  "(40 \<le> ar_clarity (fst (analyze_communication_skills ''Hi.'' (\<lambda>i. 7 * i + 3)))
      \<and> ar_clarity (fst (analyze_communication_skills ''Hi.'' (\<lambda>i. 7 * i + 3))) \<le> 100
      \<and> prefix ''No speech detected or transcription too short''
           (ar_feedback (fst (analyze_communication_skills ''Hi.'' (\<lambda>i. 7 * i + 3)))))
   \<and> (\<exists>out. evaluate_text_only '' Hi there '' (\<lambda>i. 7 * i + 3) = Inr out
         \<and> 40 \<le> clarity out \<and> clarity out \<le> 100
         \<and> 40 \<le> confidence out \<and> confidence out \<le> 100
         \<and> 40 \<le> articulation out \<and> articulation out \<le> 100
         \<and> prefix ''No speech detected or transcription too short'' (feedback out))
   \<and> (\<exists>out. evaluate_text_only ''   '' (\<lambda>i. 7 * i + 3) = Inr out
         \<and> clarity out = 0 \<and> confidence out = 0 \<and> articulation out = 0
         \<and> feedback out = ''Please provide some text to evaluate your communication skills.'')"
proof -
  have a: "length (strip ''Hi.'') < 10" by code_simp
  have b: "strip '' Hi there '' \<noteq> [] \<and> length (strip '' Hi there '') < 10" by code_simp
  have c: "strip ''   '' = []" by code_simp
  show ?thesis
    using short_transcript_results [of "''Hi.''" "\<lambda>i. 7 * i + 3" "'' Hi there ''"]
      short_transcript_results [of "''Hi.''" "\<lambda>i. 7 * i + 3" "''   ''"] a b c
    by blast
qed

text \<open>
  Claim C1. For every input string and every state of the random source,
  \<^verbatim>\<open>evaluate_text_only\<close> returns an evaluation record and raises nothing. This holds with
  any analyser in the place of the feature extraction and scoring: whenever the body of
  the \<^verbatim>\<open>try\<close> raises an exception, whichever it is, the result is the fixed degraded
  record, with clarity, confidence and articulation all 50 and the feedback
  \<open>There was an error analyzing your text. Please try again.\<close>
\<close>

theorem evaluate_text_only_never_raises:
  "(\<exists>out. evaluate_text_only input g = Inr out)
   \<and> (\<exists>out. evaluate_text_only_with analyse input g = Inr out)
   \<and> (\<forall>e. evaluate_body analyse input g = Inl e \<longrightarrow>
         evaluate_text_only_with analyse input g =
           Inr \<lparr> transcription = ''Error evaluating text. Please try again.'',
                 clarity = 50, confidence = 50, articulation = 50,
                 feedback = ''There was an error analyzing your text. Please try again.'',
                 suggestions = [Fixed ''Try recording your speech again.''],
                 analysis = ErrorOf e \<rparr>)"
proof (intro conjI allI impI)
  show "\<exists>out. evaluate_text_only input g = Inr out"
    unfolding evaluate_text_only_def by (rule evaluate_with_returns)
  show "\<exists>out. evaluate_text_only_with analyse input g = Inr out"
    by (rule evaluate_with_returns)
next
  fix e
  assume "evaluate_body analyse input g = Inl e"
  then show "evaluate_text_only_with analyse input g =
           Inr \<lparr> transcription = ''Error evaluating text. Please try again.'',
                 clarity = 50, confidence = 50, articulation = 50,
                 feedback = ''There was an error analyzing your text. Please try again.'',
                 suggestions = [Fixed ''Try recording your speech again.''],
                 analysis = ErrorOf e \<rparr>"
    by (rule evaluate_with_raised)
qed

theorem evaluate_text_only_never_raises_witness:
  "evaluate_body (\<lambda>t g. Inl (Raised ''division by zero'')) ''Hello there, everyone.'' (\<lambda>i. 7 * i + 3)
     = Inl (Raised ''division by zero'')
   \<and> evaluate_text_only_with (\<lambda>t g. Inl (Raised ''division by zero'')) ''Hello there, everyone.''
       (\<lambda>i. 7 * i + 3) =
       Inr \<lparr> transcription = ''Error evaluating text. Please try again.'',
             clarity = 50, confidence = 50, articulation = 50,
             feedback = ''There was an error analyzing your text. Please try again.'',
             suggestions = [Fixed ''Try recording your speech again.''],
             analysis = ErrorOf (Raised ''division by zero'') \<rparr>"
proof -
  have n: "strip ''Hello there, everyone.'' \<noteq> []" by code_simp
  have b: "evaluate_body (\<lambda>t g. Inl (Raised ''division by zero'')) ''Hello there, everyone.''
             (\<lambda>i. 7 * i + 3) = Inl (Raised ''division by zero'')"
    unfolding evaluate_body_def Let_def if_not_P [OF n] sum.case ..
  show ?thesis
    using evaluate_text_only_never_raises
      [of "''Hello there, everyone.''" "\<lambda>i. 7 * i + 3" "\<lambda>t g. Inl (Raised ''division by zero'')"] b
    by blast
qed

end
